theory Spec2Isabelle
  imports Main "HOL-Library.AList"
begin

section \<open>JavaScript values\<close>

text \<open>
  The values held in the session store and in canvas descriptors. Numbers are the
  integers; an object is an association list from property names to values. Objects
  and arrays are values here: the model does not track references, so two objects
  are never identical to each other (a caller's object is taken to be a fresh one).
\<close>

datatype jsval =
    Undefined
  | Null
  | Bool bool
  | Num int
  | Str string
  | Arr "jsval list"
  | Obj "(string \<times> jsval) list"

type_synonym obj = "(string \<times> jsval) list"

text \<open>\<^verbatim>\<open>!!v\<close>\<close>

fun truthy :: "jsval \<Rightarrow> bool" where
  "truthy Undefined = False"
| "truthy Null = False"
| "truthy (Bool b) = b"
| "truthy (Num n) = (n \<noteq> 0)"
| "truthy (Str s) = (s \<noteq> [])"
| "truthy (Arr xs) = True"
| "truthy (Obj kvs) = True"

text \<open>
  \<^verbatim>\<open>o[k]\<close> on an object, for its own properties: a missing property reads as
  \<^verbatim>\<open>undefined\<close>. The members that every object inherits (\<^verbatim>\<open>constructor\<close>,
  \<^verbatim>\<open>toString\<close>, \<^verbatim>\<open>hasOwnProperty\<close> and the like) are functions, which are not among
  the values here: a read of such a name that the object does not define itself is
  outside of what \<open>field\<close> describes.
\<close>

definition field :: "obj \<Rightarrow> string \<Rightarrow> jsval" where
  "field kvs k = (case map_of kvs k of Some v \<Rightarrow> v | None \<Rightarrow> Undefined)"

text \<open>\<^verbatim>\<open>v.length\<close> of a value that is not null or undefined. The length of a string
  is counted in bytes; the code below only asks whether a length is zero.\<close>

fun js_length :: "jsval \<Rightarrow> jsval" where
  "js_length (Arr xs) = Num (int (length xs))"
| "js_length (Str s) = Num (int (length s))"
| "js_length (Obj kvs) = field kvs ''length''"
| "js_length v = Undefined"

text \<open>\<^verbatim>\<open>v[k]\<close> for a value that is not null or undefined.\<close>

definition member :: "jsval \<Rightarrow> string \<Rightarrow> jsval" where
  "member v k = (case v of Obj kvs \<Rightarrow> field kvs k
                 | _ \<Rightarrow> if k = ''length'' then js_length v else Undefined)"

subsection \<open>Conversions\<close>

definition digit_char :: "nat \<Rightarrow> char" where
  "digit_char d = ''0123456789'' ! d"

function string_of_nat :: "nat \<Rightarrow> string" where
  "string_of_nat n =
     (if n < 10 then [digit_char n] else string_of_nat (n div 10) @ [digit_char (n mod 10)])"
  by pat_completeness auto
termination
  by (relation "measure (\<lambda>n. n)") auto

declare string_of_nat.simps [simp del]

definition string_of_int :: "int \<Rightarrow> string" where
  "string_of_int i = (if i < 0 then CHR ''-'' # string_of_nat (nat (- i)) else string_of_nat (nat i))"

definition digit_of :: "char \<Rightarrow> nat option" where
  "digit_of = map_of (zip ''0123456789'' [0, 1, 2, 3, 4, 5, 6, 7, 8, 9])"

definition is_digit :: "char \<Rightarrow> bool" where
  "is_digit c = (digit_of c \<noteq> None)"

text \<open>Tab, line feed, vertical tab, form feed, carriage return and space.\<close>

definition is_space :: "char \<Rightarrow> bool" where
  "is_space c = (c \<in> set [CHR 0x09, CHR 0x0A, CHR 0x0B, CHR 0x0C, CHR 0x0D, CHR '' ''])"

definition trim :: "string \<Rightarrow> string" where
  "trim s = rev (dropWhile is_space (rev (dropWhile is_space s)))"

fun digits_value :: "nat \<Rightarrow> string \<Rightarrow> nat" where
  "digits_value acc [] = acc"
| "digits_value acc (c # cs) =
     digits_value (10 * acc + (case digit_of c of Some d \<Rightarrow> d | None \<Rightarrow> 0)) cs"

definition unsigned_number :: "string \<Rightarrow> int option" where
  "unsigned_number s = (if s \<noteq> [] \<and> list_all is_digit s then Some (int (digits_value 0 s)) else None)"

text \<open>
  \<^verbatim>\<open>ToNumber\<close> of a string, on the integer fragment: surrounding white space is
  dropped, the empty string is 0, an optionally signed run of decimal digits is its
  value. Everything else is \<open>None\<close>: either \<^verbatim>\<open>NaN\<close> or a literal (fraction,
  exponent, hexadecimal, Infinity) whose value lies outside the integers modelled.
\<close>

definition number_of_string :: "string \<Rightarrow> int option" where
  "number_of_string s =
     (case trim s of
        [] \<Rightarrow> Some 0
      | c # cs \<Rightarrow>
          if c = CHR ''-'' then map_option uminus (unsigned_number cs)
          else if c = CHR ''+'' then unsigned_number cs
          else unsigned_number (c # cs))"

text \<open>\<^verbatim>\<open>ToString\<close>; an array joins its elements with commas, null and undefined
  elements contributing the empty string.\<close>

fun join :: "string list \<Rightarrow> string" where
  "join [] = []"
| "join [s] = s"
| "join (s # t # ts) = s @ '','' @ join (t # ts)"

fun to_string :: "jsval \<Rightarrow> string" where
  "to_string Undefined = ''undefined''"
| "to_string Null = ''null''"
| "to_string (Bool b) = (if b then ''true'' else ''false'')"
| "to_string (Num n) = string_of_int n"
| "to_string (Str s) = s"
| "to_string (Arr xs) =
     join (map (\<lambda>x. if x = Undefined \<or> x = Null then [] else to_string x) xs)"
| "to_string (Obj kvs) = ''[object Object]''"

fun is_object :: "jsval \<Rightarrow> bool" where
  "is_object (Arr xs) = True"
| "is_object (Obj kvs) = True"
| "is_object v = False"

fun nullish :: "jsval \<Rightarrow> bool" where
  "nullish Undefined = True"
| "nullish Null = True"
| "nullish v = False"

text \<open>\<^verbatim>\<open>ToPrimitive\<close> of an array or a plain object is its string.\<close>

definition to_primitive :: "jsval \<Rightarrow> jsval" where
  "to_primitive v = (if is_object v then Str (to_string v) else v)"

text \<open>\<^verbatim>\<open>ToNumber\<close> of a primitive; \<open>None\<close> is \<^verbatim>\<open>NaN\<close>.\<close>

fun to_number :: "jsval \<Rightarrow> int option" where
  "to_number Undefined = None"
| "to_number Null = Some 0"
| "to_number (Bool b) = Some (if b then 1 else 0)"
| "to_number (Num n) = Some n"
| "to_number (Str s) = number_of_string s"
| "to_number v = None"

text \<open>\<^verbatim>\<open>x == y\<close> on primitives.\<close>

fun prim_eq :: "jsval \<Rightarrow> jsval \<Rightarrow> bool" where
  "prim_eq (Str s) (Str t) = (s = t)"
| "prim_eq x y =
     (if nullish x \<or> nullish y then nullish x \<and> nullish y
      else to_number x \<noteq> None \<and> to_number x = to_number y)"

text \<open>\<^verbatim>\<open>x == y\<close>: two objects are equal only when they are the same object, which
  never holds between values of the model.\<close>

definition loose_eq :: "jsval \<Rightarrow> jsval \<Rightarrow> bool" where
  "loose_eq x y =
     (if is_object x \<and> is_object y then False
      else if is_object x then \<not> nullish y \<and> prim_eq (to_primitive x) y
      else if is_object y then \<not> nullish x \<and> prim_eq x (to_primitive y)
      else prim_eq x y)"

text \<open>\<^verbatim>\<open>x === y\<close>\<close>

definition strict_eq :: "jsval \<Rightarrow> jsval \<Rightarrow> bool" where
  "strict_eq x y = (\<not> is_object x \<and> x = y)"

text \<open>\<^verbatim>\<open>$.inArray(v, xs) >= 0\<close>\<close>

definition inArray :: "jsval \<Rightarrow> jsval list \<Rightarrow> bool" where
  "inArray v xs = list_ex (strict_eq v) xs"

section \<open>The session store\<close>

text \<open>
  The identity payload of the server, with the fields the session reads: \<^verbatim>\<open>result\<close>,
  the reserved namespace \<^verbatim>\<open>echo\<close> and \<^verbatim>\<open>poco.entry.accounts\<close>.
\<close>

datatype entry = Entry (accounts: "obj list option")

datatype poco = Poco (entry: "entry option")

record payload =
  p_result :: jsval
  p_echo :: "obj option"
  p_poco :: "poco option"

text \<open>\<^verbatim>\<open>user.data\<close>: \<^verbatim>\<open>{}\<close> is the record with every field absent.\<close>

record sdata =
  echo :: "obj option"
  poco :: "poco option"
  identities :: "obj list option"

datatype sstate = Init | Waiting | Ready

text \<open>
  Functions are closures of the source, named by where they are created:
  \<open>Wrapper r\<close> is the function built by \<^verbatim>\<open>_construct\<close> around \<^verbatim>\<open>config.ready\<close>
  (\<open>r = None\<close> when the caller gave none), \<open>Fn n\<close> is a function supplied by a
  caller and known by the number \<open>n\<close>, \<open>Invalidate\<close> is the function of
  \<^verbatim>\<open>_listenEvents\<close> that publishes \<^verbatim>\<open>Echo.UserSession.onInvalidate\<close>.
\<close>

datatype fn = Wrapper "nat option" | Fn nat

datatype callback = Plain fn | Invalidate

text \<open>The success function of a request: the one of \<^verbatim>\<open>_init\<close> or the one of \<^verbatim>\<open>logout\<close>.\<close>

datatype continuation = InitDone callback | LogoutDone "fn option"

record request =
  endpoint :: jsval
  params :: obj
  success :: continuation

datatype observation =
    Requested jsval
  | Published string
  | Called nat
  | Expected string

text \<open>
  The singleton \<^verbatim>\<open>Echo.UserSession\<close> (the first five fields) and what surrounds it on
  the page: the subscriptions of \<^verbatim>\<open>Echo.Events\<close>, the subscribers of \<^verbatim>\<open>Backplane\<close>,
  the requests in flight, the channel id, the protocol of the page and the trace of
  what has been observed.
\<close>

record session =
  state :: "sstate option"
  data :: "sdata option"
  identity :: "obj option"
  config :: "obj option"
  backplaneSubscriptionID :: "nat option"
  subscriptions :: "(nat \<times> string \<times> fn) list"
  next_handler :: nat
  listeners :: "nat list"
  requests :: "request list"
  channelID :: jsval
  protocol :: string
  trace :: "observation list"

subsection \<open>The attribute delegation dispatcher\<close>

text \<open>
  A key is a string of bytes, in UTF-8 where it leaves the ASCII range.
  \<^verbatim>\<open>toUpperCase\<close> on a character of the ASCII range:
\<close>

definition toUpperCase :: "char \<Rightarrow> char" where
  "toUpperCase c =
     (case map_of (zip ''abcdefghijklmnopqrstuvwxyz'' ''ABCDEFGHIJKLMNOPQRSTUVWXYZ'') c of
        Some C \<Rightarrow> C
      | None \<Rightarrow> c)"

text \<open>
  \<^verbatim>\<open>toUpperCase\<close> on the characters outside the ASCII range whose upper case begins
  with an ASCII letter, each with its UTF-8 bytes: U+00DF (SS), U+0131 (I), U+017F (S),
  U+01F0 (J and U+030C), U+1E96 (H and U+0331), U+1E97 (T and U+0308), U+1E98 (W and
  U+030A), U+1E99 (Y and U+030A), U+1E9A (A and U+02BE), U+FB00 (FF), U+FB01 (FI),
  U+FB02 (FL), U+FB03 (FFI), U+FB04 (FFL), U+FB05 and U+FB06 (ST).
\<close>

definition special_casing :: "(string \<times> string) list" where
  "special_casing =
     [([CHR 0xC3, CHR 0x9F], ''SS''),
      ([CHR 0xC4, CHR 0xB1], ''I''),
      ([CHR 0xC5, CHR 0xBF], ''S''),
      ([CHR 0xC7, CHR 0xB0], [CHR ''J'', CHR 0xCC, CHR 0x8C]),
      ([CHR 0xE1, CHR 0xBA, CHR 0x96], [CHR ''H'', CHR 0xCC, CHR 0xB1]),
      ([CHR 0xE1, CHR 0xBA, CHR 0x97], [CHR ''T'', CHR 0xCC, CHR 0x88]),
      ([CHR 0xE1, CHR 0xBA, CHR 0x98], [CHR ''W'', CHR 0xCC, CHR 0x8A]),
      ([CHR 0xE1, CHR 0xBA, CHR 0x99], [CHR ''Y'', CHR 0xCC, CHR 0x8A]),
      ([CHR 0xE1, CHR 0xBA, CHR 0x9A], [CHR ''A'', CHR 0xCA, CHR 0xBE]),
      ([CHR 0xEF, CHR 0xAC, CHR 0x80], ''FF''),
      ([CHR 0xEF, CHR 0xAC, CHR 0x81], ''FI''),
      ([CHR 0xEF, CHR 0xAC, CHR 0x82], ''FL''),
      ([CHR 0xEF, CHR 0xAC, CHR 0x83], ''FFI''),
      ([CHR 0xEF, CHR 0xAC, CHR 0x84], ''FFL''),
      ([CHR 0xEF, CHR 0xAC, CHR 0x85], ''ST''),
      ([CHR 0xEF, CHR 0xAC, CHR 0x86], ''ST'')]"

text \<open>The key with its first character replaced, when that character is in the table.\<close>

fun special_upper :: "(string \<times> string) list \<Rightarrow> string \<Rightarrow> string option" where
  "special_upper [] key = None"
| "special_upper ((c, up) # table) key =
     (if take (length c) key = c then Some (up @ drop (length c) key)
      else special_upper table key)"

text \<open>
  \<^verbatim>\<open>key.charAt(0).toUpperCase() + key.slice(1)\<close>. A first character outside the ASCII
  range that is not in the table has an upper case that begins outside the ASCII range;
  it is left as it is, which keeps the key apart from every name that begins with an
  ASCII letter, as its upper case does.
\<close>

definition capitalize :: "string \<Rightarrow> string" where
  "capitalize key =
     (case special_upper special_casing key of
        Some name \<Rightarrow> name
      | None \<Rightarrow> (case key of [] \<Rightarrow> [] | c # cs \<Rightarrow> toUpperCase c # cs))"

text \<open>The properties of \<^verbatim>\<open>Echo.UserSession\<close> whose names start with \<^verbatim>\<open>_get\<close>,
  \<^verbatim>\<open>_is\<close>, \<^verbatim>\<open>_has\<close> and \<^verbatim>\<open>_any\<close>.\<close>

datatype get_method = GetDefaultConfig | GetActiveIdentities | GetAvatar | GetName | GetSessionID

datatype is_method = IsLogged

datatype has_method = HasIdentity

datatype any_method = AnyMarker | AnyRole

definition get_methods :: "(string \<times> get_method) list" where
  "get_methods =
     [(''_getDefaultConfig'', GetDefaultConfig), (''_getActiveIdentities'', GetActiveIdentities),
      (''_getAvatar'', GetAvatar), (''_getName'', GetName), (''_getSessionID'', GetSessionID)]"

definition is_methods :: "(string \<times> is_method) list" where
  "is_methods = [(''_isLogged'', IsLogged)]"

definition has_methods :: "(string \<times> has_method) list" where
  "has_methods = [(''_hasIdentity'', HasIdentity)]"

definition any_methods :: "(string \<times> any_method) list" where
  "any_methods = [(''_anyMarker'', AnyMarker), (''_anyRole'', AnyRole)]"

text \<open>The handler that \<^verbatim>\<open>_maybeDelegate\<close> finds: \<^verbatim>\<open>user["_" + action + name]\<close>.\<close>

definition maybeDelegate :: "(string \<times> 'h) list \<Rightarrow> string \<Rightarrow> string \<Rightarrow> 'h option" where
  "maybeDelegate methods action key = map_of methods (''_'' @ action @ capitalize key)"

subsection \<open>Handlers of get\<close>

definition getDefaultConfig :: "session \<Rightarrow> obj" where
  "getDefaultConfig u =
     (let p = (if protocol u = ''https:'' then ''https:'' else ''http:'') in
          [(''appkey'', Str []),
           (''endpoints'', Obj [(''logout'', Str (p @ ''//apps.echoenabled.com/v2/logout'')),
                                (''whoami'', Str (p @ ''//api.echoenabled.com/v1/users/whoami''))]),
           (''defaultAvatar'', Str (p @ ''//cdn.echoenabled.com/images/avatar-default.png'')),
           (''fakeIdentityURL'', Str ''http://js-kit.com/ECHO/user/fake_user'')])"

text \<open>The accounts whose \<^verbatim>\<open>loggedIn\<close> equals \<^verbatim>\<open>"true"\<close>, as \<^verbatim>\<open>$.map\<close> collects them.\<close>

definition logged_accounts :: "entry \<Rightarrow> jsval" where
  "logged_accounts en =
     Arr (map Obj (filter (\<lambda>e. loose_eq (field e ''loggedIn'') (Str ''true''))
                          (case accounts en of Some a \<Rightarrow> a | None \<Rightarrow> [])))"

text \<open>\<open>None\<close> is the TypeError of reading a property of \<^verbatim>\<open>undefined\<close>, here and below.\<close>

definition getActiveIdentities :: "session \<Rightarrow> (jsval \<times> session) option" where
  "getActiveIdentities u =
     (case data u of
        None \<Rightarrow> None
      | Some d \<Rightarrow>
          (case poco d of
             None \<Rightarrow> Some (Undefined, u)
           | Some p \<Rightarrow>
               (case entry p of
                  None \<Rightarrow> Some (Undefined, u)
                | Some en \<Rightarrow>
                    (case identity u of
                       None \<Rightarrow> Some (logged_accounts en, u)
                     | Some i \<Rightarrow>
                         if truthy (field i ''activeIdentities'')
                         then Some (field i ''activeIdentities'', u)
                         else Some (logged_accounts en,
                                    u\<lparr>identity :=
                                        Some (AList.update ''activeIdentities'' (logged_accounts en) i)\<rparr>)))))"

text \<open>
  Modelled from the spec: \<^verbatim>\<open>Echo.Utils.foldl\<close> is not part of the sources at hand; the
  avatar is the value of the first photo record of type "avatar". A photo that is null
  or undefined is a TypeError.
\<close>

fun first_avatar :: "jsval list \<Rightarrow> jsval option" where
  "first_avatar [] = Some Undefined"
| "first_avatar (img # imgs) =
     (if nullish img then None
      else if loose_eq (member img ''type'') (Str ''avatar'') \<and> member img ''value'' \<noteq> Undefined
           then Some (member img ''value'')
           else first_avatar imgs)"

definition photo_list :: "jsval \<Rightarrow> jsval list" where
  "photo_list v = (case v of Arr xs \<Rightarrow> xs | Obj kvs \<Rightarrow> map snd kvs | _ \<Rightarrow> [])"

definition getAvatar :: "session \<Rightarrow> (jsval \<times> session) option" where
  "getAvatar u =
     (case identity u of
        None \<Rightarrow> None
      | Some i \<Rightarrow>
          if truthy (field i ''avatar'') then Some (field i ''avatar'', u)
          else (case first_avatar (photo_list (field i ''photos'')) of
                  None \<Rightarrow> None
                | Some a \<Rightarrow> Some (a, u\<lparr>identity := Some (AList.update ''avatar'' a i)\<rparr>)))"

definition getName :: "session \<Rightarrow> jsval" where
  "getName u =
     (case identity u of
        None \<Rightarrow> Undefined
      | Some i \<Rightarrow> if truthy (field i ''displayName'') then field i ''displayName''
                  else field i ''username'')"

definition getSessionID :: "session \<Rightarrow> jsval" where
  "getSessionID u = channelID u"

subsection \<open>get, is, any, has\<close>

text \<open>\<^verbatim>\<open>_attrLocation\<close>: the inner \<open>None\<close> is a location that is \<^verbatim>\<open>undefined\<close>.\<close>

definition attrLocation :: "string \<Rightarrow> session \<Rightarrow> obj option option" where
  "attrLocation key u =
     (if key \<in> set [''roles'', ''state'', ''markers'']
      then (case data u of None \<Rightarrow> None | Some d \<Rightarrow> Some (echo d))
      else Some (identity u))"

definition get :: "string \<Rightarrow> jsval \<Rightarrow> session \<Rightarrow> (jsval \<times> session) option" where
  "get key defaults u =
     (case maybeDelegate get_methods ''get'' key of
        Some GetDefaultConfig \<Rightarrow> Some (Obj (getDefaultConfig u), u)
      | Some GetActiveIdentities \<Rightarrow> getActiveIdentities u
      | Some GetAvatar \<Rightarrow> getAvatar u
      | Some GetName \<Rightarrow> Some (getName u, u)
      | Some GetSessionID \<Rightarrow> Some (getSessionID u, u)
      | None \<Rightarrow>
          (case attrLocation key u of
             None \<Rightarrow> None
           | Some None \<Rightarrow> None
           | Some (Some loc) \<Rightarrow>
               (let value = field loc key
                in Some (if loose_eq value Undefined then defaults else value, u))))"

definition isLogged :: "session \<Rightarrow> (bool \<times> session) option" where
  "isLogged u =
     (case get ''activeIdentities'' Undefined u of
        None \<Rightarrow> None
      | Some (activeIdentities, u') \<Rightarrow>
          Some (truthy activeIdentities \<and> truthy (js_length activeIdentities), u'))"

text \<open>\<^verbatim>\<open>is\<close> has no fallback: without a handler the result is \<^verbatim>\<open>undefined\<close>.\<close>

definition is_attr :: "string \<Rightarrow> session \<Rightarrow> (jsval \<times> session) option" where
  "is_attr key u =
     (case maybeDelegate is_methods ''is'' key of
        Some IsLogged \<Rightarrow> map_option (\<lambda>(b, u'). (Bool b, u')) (isLogged u)
      | None \<Rightarrow> Some (Undefined, u))"

text \<open>The test of the \<^verbatim>\<open>$.each\<close> body in the fallback of \<^verbatim>\<open>any\<close>.\<close>

definition satisfies :: "jsval \<Rightarrow> jsval \<Rightarrow> bool" where
  "satisfies d v =
     (case d of Str s \<Rightarrow> loose_eq d v | Arr xs \<Rightarrow> inArray v xs | _ \<Rightarrow> False)"

fun any_each :: "string \<Rightarrow> jsval list \<Rightarrow> session \<Rightarrow> (bool \<times> session) option" where
  "any_each key [] u = Some (False, u)"
| "any_each key (v # vs) u =
     (case get key (Obj []) u of
        None \<Rightarrow> None
      | Some (d, u') \<Rightarrow> if satisfies d v then Some (True, u') else any_each key vs u')"

definition any_fallback :: "string \<Rightarrow> jsval list \<Rightarrow> session \<Rightarrow> (bool \<times> session) option" where
  "any_fallback key vs u = (if identity u = None then Some (False, u) else any_each key vs u)"

function any :: "string \<Rightarrow> jsval list \<Rightarrow> session \<Rightarrow> (bool \<times> session) option" where
  "any key vs u =
     (case maybeDelegate any_methods ''any'' key of
        Some AnyMarker \<Rightarrow> any ''markers'' vs u
      | Some AnyRole \<Rightarrow> any ''roles'' vs u
      | None \<Rightarrow> any_fallback key vs u)"
  by pat_completeness auto
termination
  by (relation "measure (\<lambda>(key, vs, u). if maybeDelegate any_methods ''any'' key = None then 0 else 1)")
     (auto simp: maybeDelegate_def any_methods_def capitalize_def special_casing_def toUpperCase_def)

declare any.simps [simp del]

text \<open>\<^verbatim>\<open>_hasIdentity\<close>; its argument is the array \<^verbatim>\<open>[value]\<close> that \<^verbatim>\<open>has\<close> hands to
  \<^verbatim>\<open>_maybeDelegate\<close>.\<close>

definition hasIdentity :: "jsval \<Rightarrow> session \<Rightarrow> bool option" where
  "hasIdentity identityUrl u =
     (case data u of
        None \<Rightarrow> None
      | Some d \<Rightarrow>
          (case identities d of
             None \<Rightarrow> None
           | Some ids \<Rightarrow>
               Some (list_ex (\<lambda>i. truthy (field i ''identityUrl'')
                                  \<and> loose_eq (field i ''identityUrl'') identityUrl) ids)))"

definition has :: "string \<Rightarrow> jsval \<Rightarrow> session \<Rightarrow> (bool \<times> session) option" where
  "has key v u =
     (case maybeDelegate has_methods ''has'' key of
        Some HasIdentity \<Rightarrow> map_option (\<lambda>b. (b, u)) (hasIdentity (Arr [v]) u)
      | None \<Rightarrow> any key [v] u)"

section \<open>The session state machine\<close>

subsection \<open>Collaborators\<close>

text \<open>
  Modelled from the spec: \<^verbatim>\<open>Echo.Events.subscribe\<close> is not part of the sources at hand.
  \<^verbatim>\<open>Echo.Events\<close> is the publish/subscribe bus keyed by topic; subscribing adds a
  handler after those already there and returns a fresh handle. The only subscriptions
  are those of \<^verbatim>\<open>_onInit\<close>, whose handler unsubscribes itself and calls the function it
  was given: an entry is \<open>(handlerId, topic, callback)\<close>.
\<close>

definition subscribe :: "string \<Rightarrow> fn \<Rightarrow> session \<Rightarrow> session" where
  "subscribe topic f u =
     u\<lparr>subscriptions := subscriptions u @ [(next_handler u, topic, f)],
       next_handler := Suc (next_handler u)\<rparr>"

text \<open>
  Modelled from the spec: \<^verbatim>\<open>Echo.Events.unsubscribe\<close> is not part of the sources at hand.
  It removes the handler with the given handle from the topic.
\<close>

definition unsubscribe :: "string \<Rightarrow> nat \<Rightarrow> session \<Rightarrow> session" where
  "unsubscribe topic handlerId u =
     u\<lparr>subscriptions := filter (\<lambda>(h, t, f). \<not> (h = handlerId \<and> t = topic)) (subscriptions u)\<rparr>"

text \<open>What calling a function leaves in the trace; a wrapper without \<^verbatim>\<open>config.ready\<close>
  calls the empty function.\<close>

fun fired :: "fn \<Rightarrow> observation list" where
  "fired (Wrapper None) = []"
| "fired (Wrapper (Some n)) = [Called n]"
| "fired (Fn n) = [Called n]"

definition call_fn :: "fn \<Rightarrow> session \<Rightarrow> session" where
  "call_fn f u = u\<lparr>trace := trace u @ fired f\<rparr>"

text \<open>The handlers of \<^verbatim>\<open>_onInit\<close>, called one after the other: each unsubscribes itself
  and calls its function.\<close>

fun run_handlers :: "(nat \<times> string \<times> fn) list \<Rightarrow> session \<Rightarrow> session" where
  "run_handlers [] u = u"
| "run_handlers ((handlerId, topic, f) # hs) u =
     run_handlers hs (call_fn f (unsubscribe topic handlerId u))"

text \<open>
  Modelled from the spec: \<^verbatim>\<open>Echo.Events.publish\<close> is not part of the sources at hand.
  It calls the handlers that are subscribed to the topic at that moment, in subscription
  order.
\<close>

definition publish :: "string \<Rightarrow> session \<Rightarrow> session" where
  "publish topic u =
     run_handlers (filter (\<lambda>(h, t, f). t = topic) (subscriptions u))
                  (u\<lparr>trace := trace u @ [Published topic]\<rparr>)"

definition call :: "callback \<Rightarrow> session \<Rightarrow> session" where
  "call cb u = (case cb of Plain f \<Rightarrow> call_fn f u
                | Invalidate \<Rightarrow> publish ''Echo.UserSession.onInvalidate'' u)"

text \<open>
  Modelled from the spec: \<^verbatim>\<open>Echo.Configuration\<close> is not part of the sources at hand. It
  is the nested key-path accessor over the caller's configuration laid over the defaults;
  \<^verbatim>\<open>get("a.b")\<close> reads along the path \<open>[a, b]\<close>.
\<close>

fun config_get :: "jsval \<Rightarrow> string list \<Rightarrow> jsval" where
  "config_get v [] = v"
| "config_get v (k # ks) = (if nullish v then Undefined else config_get (member v k) ks)"

text \<open>The argument of \<^verbatim>\<open>Echo.UserSession(config)\<close>; \<open>ready\<close> is the number of the
  caller's function, if there is one.\<close>

record settings =
  appkey :: jsval
  defaultAvatar :: jsval
  ready :: "nat option"

text \<open>
  Modelled from the spec: \<^verbatim>\<open>new Echo.Configuration(config, defaults)\<close> is not part of the
  sources at hand. The fields that the caller defines lie over the defaults.
\<close>

definition configuration :: "settings \<Rightarrow> obj \<Rightarrow> obj" where
  "configuration c defaults =
     (let d1 = AList.update ''appkey'' (appkey c) defaults
      in if defaultAvatar c = Undefined then d1
         else AList.update ''defaultAvatar'' (defaultAvatar c) d1)"

text \<open>\<^verbatim>\<open>$.get(endpoint, data, callback, "jsonp")\<close>: the request is in flight until its
  response is delivered.\<close>

definition apiRequest :: "jsval \<Rightarrow> obj \<Rightarrow> continuation \<Rightarrow> session \<Rightarrow> session" where
  "apiRequest e d k u =
     u\<lparr>requests := requests u @ [\<lparr>endpoint = e, params = d, success = k\<rparr>],
       trace := trace u @ [Requested e]\<rparr>"

subsection \<open>Normalisation and reset\<close>

definition empty_payload :: payload where
  "empty_payload = \<lparr>p_result = Undefined, p_echo = None, p_poco = None\<rparr>"

text \<open>\<^verbatim>\<open>$.extend({}, data)\<close>\<close>

definition extend_data :: "payload \<Rightarrow> sdata" where
  "extend_data d = \<lparr>echo = p_echo d, poco = p_poco d, identities = None\<rparr>"

text \<open>\<^verbatim>\<open>o[k] = o[k] || v\<close>\<close>

definition default_to :: "string \<Rightarrow> jsval \<Rightarrow> obj \<Rightarrow> obj" where
  "default_to k v kvs = AList.update k (if truthy (field kvs k) then field kvs k else v) kvs"

definition normalize :: "sdata \<Rightarrow> sdata option" where
  "normalize d =
     (let e = default_to ''markers'' (Arr [])
                (default_to ''roles'' (Arr [])
                  (default_to ''state'' (Str ''Untouched'')
                    (case echo d of Some e0 \<Rightarrow> e0 | None \<Rightarrow> [])));
          p = (case poco d of Some p0 \<Rightarrow> p0 | None \<Rightarrow> Poco (Some (Entry None)))
      in case entry p of
           None \<Rightarrow> None
         | Some en \<Rightarrow>
             Some \<lparr>echo = Some e, poco = Some p,
                   identities = Some (case accounts en of Some a \<Rightarrow> a | None \<Rightarrow> [])\<rparr>)"

text \<open>
  \<^verbatim>\<open>identities && identities.length ? identities[0] : {}\<close>, where \<open>identities\<close> is what
  \<^verbatim>\<open>_getActiveIdentities\<close> computes for a fresh identity: undefined or an array of
  account objects.
\<close>

fun first_identity :: "jsval \<Rightarrow> obj" where
  "first_identity (Arr (Obj i # xs)) = i"
| "first_identity v = []"

definition reset :: "payload \<Rightarrow> session \<Rightarrow> session option" where
  "reset d u =
     (case normalize (extend_data d) of
        None \<Rightarrow> None
      | Some nd \<Rightarrow>
          (case get ''activeIdentities'' Undefined (u\<lparr>data := Some nd, identity := Some []\<rparr>) of
             None \<Rightarrow> None
           | Some (ids, u') \<Rightarrow> Some (u'\<lparr>identity := Some (first_identity ids)\<rparr>)))"

subsection \<open>Resolution\<close>

definition onInit :: "fn option \<Rightarrow> session \<Rightarrow> session" where
  "onInit callback u =
     (case callback of None \<Rightarrow> u | Some f \<Rightarrow> subscribe ''Echo.UserSession.onInit'' f u)"

definition init :: "callback \<Rightarrow> session \<Rightarrow> session option" where
  "init callback u =
     (let u1 = u\<lparr>state := Some Waiting\<rparr> in
      case config u1 of
        None \<Rightarrow> None
      | Some c \<Rightarrow>
          (case get ''sessionID'' Undefined u1 of
             None \<Rightarrow> None
           | Some (sid, u2) \<Rightarrow>
               Some (apiRequest (config_get (Obj c) [''endpoints'', ''whoami''])
                       [(''appkey'', config_get (Obj c) [''appkey'']), (''sessionID'', sid)]
                       (InitDone callback) u2)))"

text \<open>The success function of the request of \<^verbatim>\<open>_init\<close>.\<close>

definition init_done :: "callback \<Rightarrow> payload \<Rightarrow> session \<Rightarrow> session option" where
  "init_done callback d u =
     (let d' = (if truthy (p_result d) \<and> loose_eq (p_result d) (Str ''session_not_found'')
                then empty_payload else d)
      in case reset d' (u\<lparr>state := Some Ready\<rparr>) of
           None \<Rightarrow> None
         | Some u1 \<Rightarrow> Some (call callback (publish ''Echo.UserSession.onInit'' u1)))"

text \<open>
  \<^verbatim>\<open>Backplane.subscribe\<close> hands out a handle that is not zero. The subscriber that
  \<^verbatim>\<open>_listenEvents\<close> registers is \<open>listener\<close>.
\<close>

definition listenEvents :: "session \<Rightarrow> session" where
  "listenEvents u =
     (case backplaneSubscriptionID u of
        Some (Suc n) \<Rightarrow> u
      | _ \<Rightarrow> (let h = Suc (length (listeners u))
              in u\<lparr>listeners := listeners u @ [h], backplaneSubscriptionID := Some h\<rparr>))"

definition listener :: "string \<Rightarrow> session \<Rightarrow> session option" where
  "listener message_type u =
     (if message_type \<noteq> ''identity/ack'' then Some u else init Invalidate u)"

text \<open>\<^verbatim>\<open>_construct\<close>, the body of \<^verbatim>\<open>Echo.UserSession(config)\<close>; a falsy config is
  \<open>None\<close>. The boolean tells what is returned: the session (\<open>True\<close>) or
  \<^verbatim>\<open>undefined\<close> (\<open>False\<close>).\<close>

definition construct :: "settings option \<Rightarrow> session \<Rightarrow> (bool \<times> session) option" where
  "construct cfg u =
     (case cfg of
        None \<Rightarrow> Some (False, u)
      | Some c \<Rightarrow>
          if \<not> truthy (appkey c) then Some (False, u)
          else
            (let callback = Wrapper (ready c);
                 u1 = u\<lparr>state := Some (case state u of Some s \<Rightarrow> s | None \<Rightarrow> Init)\<rparr>
             in map_option (Pair True)
                  (case state u1 of
                     Some Waiting \<Rightarrow> Some (onInit (Some callback) u1)
                   | Some Ready \<Rightarrow> Some (call_fn callback u1)
                   | _ \<Rightarrow>
                       init (Plain callback)
                         (listenEvents
                            (u1\<lparr>data := Some \<lparr>echo = None, poco = None, identities = None\<rparr>,
                                config := Some (configuration c (getDefaultConfig u1))\<rparr>)))))"

subsection \<open>Logout\<close>

definition logout :: "fn option \<Rightarrow> session \<Rightarrow> session option" where
  "logout callback u =
     (case is_attr ''logged'' u of
        None \<Rightarrow> None
      | Some (logged, u1) \<Rightarrow>
          if \<not> truthy logged
          then map_option (\<lambda>u2. case callback of None \<Rightarrow> u2 | Some f \<Rightarrow> call_fn f u2)
                 (reset empty_payload u1)
          else
            (case config u1 of
               None \<Rightarrow> None
             | Some c \<Rightarrow>
                 (case get ''sessionID'' Undefined u1 of
                    None \<Rightarrow> None
                  | Some (sid, u2) \<Rightarrow>
                      Some (apiRequest (config_get (Obj c) [''endpoints'', ''logout''])
                              [(''sessionID'', sid)] (LogoutDone callback) u2))))"

text \<open>The success function of the request of \<^verbatim>\<open>logout\<close>.\<close>

definition logout_done :: "fn option \<Rightarrow> session \<Rightarrow> session" where
  "logout_done callback u =
     (let u1 = onInit callback u in u1\<lparr>trace := trace u1 @ [Expected ''identity/ack'']\<rparr>)"

subsection \<open>Runs\<close>

text \<open>
  What can happen to the session: a call of \<^verbatim>\<open>Echo.UserSession(config)\<close>, a message on
  the Backplane channel, the response to the \<open>i\<close>-th request in flight, a call of
  \<^verbatim>\<open>logout\<close>. A step is \<open>None\<close> when it ends in a TypeError.
\<close>

datatype event =
    Construct "settings option"
  | Message string
  | Response nat payload
  | Logout "nat option"

fun deliver :: "nat list \<Rightarrow> string \<Rightarrow> session \<Rightarrow> session option" where
  "deliver [] m u = Some u"
| "deliver (l # ls) m u = (case listener m u of None \<Rightarrow> None | Some u' \<Rightarrow> deliver ls m u')"

definition respond :: "nat \<Rightarrow> payload \<Rightarrow> session \<Rightarrow> session option" where
  "respond i d u =
     (if i < length (requests u)
      then (let u1 = u\<lparr>requests := take i (requests u) @ drop (Suc i) (requests u)\<rparr>
            in case success (requests u ! i) of
                 InitDone cb \<Rightarrow> init_done cb d u1
               | LogoutDone cb \<Rightarrow> Some (logout_done cb u1))
      else Some u)"

fun step :: "event \<Rightarrow> session \<Rightarrow> session option" where
  "step (Construct cfg) u = map_option snd (construct cfg u)"
| "step (Message m) u = deliver (listeners u) m u"
| "step (Response i d) u = respond i d u"
| "step (Logout cb) u = logout (map_option Fn cb) u"

fun run :: "event list \<Rightarrow> session \<Rightarrow> session option" where
  "run [] u = Some u"
| "run (e # es) u = (case step e u of None \<Rightarrow> None | Some u' \<Rightarrow> run es u')"

text \<open>The page before the first call.\<close>

definition page :: "jsval \<Rightarrow> string \<Rightarrow> session" where
  "page ch pr =
     \<lparr>state = None, data = None, identity = None, config = None,
      backplaneSubscriptionID = None, subscriptions = [], next_handler = 0,
      listeners = [], requests = [], channelID = ch, protocol = pr, trace = []\<rparr>"

text \<open>The identity-fetch requests in flight.\<close>

fun is_fetch :: "request \<Rightarrow> bool" where
  "is_fetch r = (case success r of InitDone cb \<Rightarrow> True | LogoutDone cb \<Rightarrow> False)"

definition fetches :: "session \<Rightarrow> request list" where
  "fetches u = filter is_fetch (requests u)"

subsection \<open>Notions used in the properties\<close>


text \<open>A run in which no \<^verbatim>\<open>identity/ack\<close> message is delivered while the state is
  waiting.\<close>

fun admissible :: "event list \<Rightarrow> session \<Rightarrow> bool" where
  "admissible [] u = True"
| "admissible (e # es) u =
     (\<not> (e = Message ''identity/ack'' \<and> state u = Some Waiting)
      \<and> (case step e u of None \<Rightarrow> True | Some u' \<Rightarrow> admissible es u'))"

text \<open>The invariant of such runs: an identity-fetch request is in flight exactly when
  the state is waiting, and \<^verbatim>\<open>_listenEvents\<close> has subscribed at most once.\<close>

definition one_fetch :: "session \<Rightarrow> bool" where
  "one_fetch u =
     (length (fetches u) = (if state u = Some Waiting then 1 else 0)
      \<and> length (listeners u) \<le> 1
      \<and> (listeners u = [] \<or> (\<exists>n. backplaneSubscriptionID u = Some (Suc n))))"

definition core :: "session \<Rightarrow> sstate option \<times> request list \<times> nat list \<times> nat option" where
  "core u = (state u, requests u, listeners u, backplaneSubscriptionID u)"

subsection \<open>An example page\<close>

definition example_settings :: "nat \<Rightarrow> settings" where
  "example_settings n = \<lparr>appkey = Str ''key'', defaultAvatar = Undefined, ready = Some n\<rparr>"

text \<open>A payload with one logged-in account, whose \<^verbatim>\<open>username\<close> is \<^verbatim>\<open>null\<close>.\<close>

definition example_payload :: payload where
  "example_payload =
     \<lparr>p_result = Undefined,
      p_echo = Some [(''roles'', Arr [Str ''moderator''])],
      p_poco = Some (Poco (Some (Entry (Some
        [[(''identityUrl'', Str ''http://x''), (''loggedIn'', Str ''true''),
          (''username'', Null)]]))))\<rparr>"


definition example_page :: session where
  "example_page = page (Str ''ch'') ''http:''"

text \<open>The example page after a first call and the response to its request.\<close>

definition example_ready :: session where
  "example_ready =
     the (run [Construct (Some (example_settings 0)), Response 0 example_payload] example_page)"

text \<open>The example page after a first call, its request still in flight.\<close>

definition example_waiting :: session where
  "example_waiting = the (run [Construct (Some (example_settings 0))] example_page)"

section \<open>The canvas\<close>

subsection \<open>Data\<close>

text \<open>An app descriptor of the canvas document; \<open>app_id\<close> is its \<^verbatim>\<open>id\<close> and
  \<open>app_config\<close> its \<^verbatim>\<open>config\<close> object, \<open>None\<close> when it has none.\<close>

record descriptor =
  component :: jsval
  script :: jsval
  scripts :: jsval
  caption :: jsval
  app_id :: jsval
  app_config :: "obj option"

text \<open>The canvas document (\<^verbatim>\<open>this.data\<close>): the app list, the Backplane parameters and
  whatever other properties it has. The default \<^verbatim>\<open>{}\<close> has none of them.\<close>

record document =
  apps :: "descriptor list option"
  backplane :: jsval
  rest :: obj

definition isEmptyObject :: "document \<Rightarrow> bool" where
  "isEmptyObject d = (apps d = None \<and> backplane d = Undefined \<and> rest d = [])"

text \<open>A live app: the component it was built from and the configuration handed to its
  constructor; \<open>inst_user\<close> tells whether that configuration carries a session.\<close>

record app_instance =
  inst_component :: jsval
  inst_config :: obj
  inst_user :: bool

datatype canvas_observation =
    ErrorPublished string string
  | ErrorLogged string string
  | MessageShown string
  | ConfigRequested jsval jsval
  | BackplaneInit jsval
  | SessionRequested jsval
  | DownloadRequested "(jsval \<times> jsval) list"
  | Destroyed app_instance
  | ReadyFired

text \<open>
  A canvas and its container: \<open>initialized\<close>, \<open>target_id\<close> and \<open>target_appkey\<close> are the
  container's \<^verbatim>\<open>echo-canvas-initialized\<close>, \<^verbatim>\<open>canvas-id\<close> and \<^verbatim>\<open>canvas-appkey\<close> data,
  the \<open>cfg\<close> fields are the configuration, \<open>registry\<close> is \<^verbatim>\<open>this.apps\<close> (an entry is
  an instance or, as \<open>None\<close>, a falsy value), \<open>debug\<close> is \<^verbatim>\<open>Echo.Loader.isDebug()\<close>,
  \<open>components\<close> are the component names that have an implementation on the page, and
  \<open>events\<close> is what the canvas has done to the outside: errors published, logged and
  shown, requests issued, instances destroyed.
\<close>

record canvas =
  initialized :: jsval
  target_id :: jsval
  target_appkey :: jsval
  cfg_id :: jsval
  cfg_appkey :: jsval
  cfg_user :: bool
  cfg_overrides :: "(string \<times> obj) list"
  cfg_storageURL :: jsval
  document :: document
  registry :: "app_instance option list"
  debug :: bool
  components :: "string list"
  events :: "canvas_observation list"

subsection \<open>Errors\<close>

definition labels :: "(string \<times> string) list" where
  "labels =
     [(''error_no_apps'', ''No applications defined for this canvas''),
      (''error_no_config'', ''Unable to retrieve Canvas config''),
      (''error_no_suitable_app_class'', ''Unable to init an app, no suitable JS class found''),
      (''error_unable_to_retrieve_app_config'', ''Unable to retrieve Canvas config from the storage''),
      (''error_incomplete_app_config'', ''Unable to init an app, config is incomplete''),
      (''error_canvas_already_initialized'', ''Canvas has been initialized already''),
      (''error_invalid_canvas_config'', ''Canvas with invalid configuration found'')]"

text \<open>
  Modelled from the spec: \<^verbatim>\<open>labels.get\<close> is not part of the sources at hand. It looks a
  label up in the table of the canvas.
\<close>

definition label :: "string \<Rightarrow> string" where
  "label k = (case map_of labels k of Some m \<Rightarrow> m | None \<Rightarrow> k)"

text \<open>\<^verbatim>\<open>_error\<close>, with the code, the \<^verbatim>\<open>renderError\<close> flag and the message of its argument.\<close>

definition error :: "string \<Rightarrow> bool \<Rightarrow> string option \<Rightarrow> canvas \<Rightarrow> canvas" where
  "error code renderError message c =
     (let m = (case message of
                 Some t \<Rightarrow> if t \<noteq> [] then t else label (''error_'' @ code)
               | None \<Rightarrow> label (''error_'' @ code));
          c1 = (if debug c then c\<lparr>events := events c @ [ErrorPublished code m]\<rparr> else c);
          c2 = c1\<lparr>events := events c1 @ [ErrorLogged code m]\<rparr>
      in if renderError then c2\<lparr>events := events c2 @ [MessageShown m]\<rparr> else c2)"

subsection \<open>Stage 5: instantiation\<close>

text \<open>
  Modelled from the spec: \<^verbatim>\<open>Echo.Utils.getComponent\<close> is not part of the sources at hand.
  It finds the implementation registered under a component identifier.
\<close>

definition getComponent :: "jsval \<Rightarrow> canvas \<Rightarrow> bool" where
  "getComponent name c = (case name of Str n \<Rightarrow> n \<in> set (components c) | _ \<Rightarrow> False)"

text \<open>\<^verbatim>\<open>$.extend(true, target, options)\<close> on plain objects and arrays.\<close>

fun merge_val :: "jsval \<Rightarrow> jsval \<Rightarrow> jsval"
  and merge_obj :: "obj \<Rightarrow> obj \<Rightarrow> obj"
  and merge_arr :: "jsval list \<Rightarrow> jsval list \<Rightarrow> jsval list" where
  "merge_val src (Obj c) = Obj (merge_obj (case src of Obj s \<Rightarrow> s | _ \<Rightarrow> []) c)"
| "merge_val src (Arr cs) = Arr (merge_arr (case src of Arr ss \<Rightarrow> ss | _ \<Rightarrow> []) cs)"
| "merge_val src copy = copy"
| "merge_obj t [] = t"
| "merge_obj t ((k, copy) # options) =
     merge_obj (if copy = Undefined then t else AList.update k (merge_val (field t k) copy) t)
       options"
| "merge_arr ss [] = ss"
| "merge_arr [] (c # cs) = merge_val Undefined c # merge_arr [] cs"
| "merge_arr (s # ss) (c # cs) = (if c = Undefined then s else merge_val s c) # merge_arr ss cs"

text \<open>\<^verbatim>\<open>_initApp(app, element, id)\<close>: the descriptor as it leaves the call, and the canvas.
  The view and the target of the app are page elements and are not represented.\<close>

definition initApp :: "descriptor \<Rightarrow> nat \<Rightarrow> canvas \<Rightarrow> descriptor \<times> canvas" where
  "initApp app i c =
     (if \<not> getComponent (component app) c
      then (app, error ''no_suitable_app_class'' False None c)
      else
        (let app1 = app\<lparr>app_id := (if truthy (app_id app) then app_id app else Num (int i))\<rparr>;
             conf = (case app_config app1 of Some k \<Rightarrow> k | None \<Rightarrow> []);
             merged = (case map_of (cfg_overrides c) (to_string (app_id app1)) of
                         Some overrides \<Rightarrow> merge_obj conf overrides
                       | None \<Rightarrow> conf)
         in (app1\<lparr>app_config := Some merged\<rparr>,
             c\<lparr>registry := registry c @
                  [Some \<lparr>inst_component = component app, inst_config = merged,
                         inst_user = cfg_user c\<rparr>]\<rparr>)))"

fun initApps :: "nat \<Rightarrow> descriptor list \<Rightarrow> canvas \<Rightarrow> descriptor list \<times> canvas" where
  "initApps i [] c = ([], c)"
| "initApps i (app # as) c =
     (case initApp app i c of
        (app', c') \<Rightarrow> (case initApps (Suc i) as c' of (as', c'') \<Rightarrow> (app' # as', c'')))"

text \<open>The renderer of the container: \<^verbatim>\<open>$.map\<close> over \<^verbatim>\<open>data.apps\<close>, a TypeError (\<open>None\<close>)
  when there is no such list.\<close>

definition container :: "canvas \<Rightarrow> canvas option" where
  "container c =
     (case apps (document c) of
        None \<Rightarrow> None
      | Some ds \<Rightarrow>
          (case initApps 0 ds c of
             (ds', c') \<Rightarrow> Some (c'\<lparr>document := (document c')\<lparr>apps := Some ds'\<rparr>\<rparr>)))"

text \<open>
  Modelled from the spec: the parent \<^verbatim>\<open>init\<close> of \<^verbatim>\<open>Echo.Control\<close> is not part of the
  sources at hand. It finishes the initialisation: it renders the canvas, which runs the
  renderer of the container once, and fires \<^verbatim>\<open>onReady\<close>.
\<close>

definition parent :: "canvas \<Rightarrow> canvas option" where
  "parent c = map_option (\<lambda>c'. c'\<lparr>events := events c' @ [ReadyFired]\<rparr>) (container c)"

text \<open>
  Modelled from the spec: \<^verbatim>\<open>Echo.Loader.download\<close> is not part of the sources at hand.
  It fetches the resources and calls back once every one of them reports that its
  component is defined; \<open>defined\<close> are the components that have an implementation on the
  page at that moment.
\<close>

definition download_done :: "string list \<Rightarrow> canvas \<Rightarrow> canvas option" where
  "download_done defined c = parent (c\<lparr>components := defined\<rparr>)"

subsection \<open>Stage 4: resources\<close>

definition isManuallyConfigured :: "canvas \<Rightarrow> bool" where
  "isManuallyConfigured c = (\<not> isEmptyObject (document c))"

definition getAppScriptURL :: "descriptor \<Rightarrow> canvas \<Rightarrow> jsval" where
  "getAppScriptURL app c =
     (if truthy (scripts app) \<and> truthy (member (scripts app) ''dev'')
         \<and> truthy (member (scripts app) ''prod'')
      then member (scripts app) (if debug c then ''dev'' else ''prod'')
      else script app)"

text \<open>The body of the \<^verbatim>\<open>$.map\<close> of \<^verbatim>\<open>_loadAppResources\<close>: a resource is the script and
  the component whose definition tells that it is loaded.\<close>

fun collect :: "bool \<Rightarrow> descriptor list \<Rightarrow> (jsval \<times> jsval) list \<Rightarrow> canvas
                \<Rightarrow> (jsval \<times> jsval) list \<times> canvas" where
  "collect isManual [] resources c = (resources, c)"
| "collect isManual (app # as) resources c =
     (let url = getAppScriptURL app c in
      if \<not> truthy (component app) \<or> \<not> truthy url \<or> \<not> (isManual \<or> truthy (app_id app))
      then collect isManual as resources (error ''incomplete_app_config'' False None c)
      else collect isManual as (resources @ [(url, component app)]) c)"

text \<open>\<^verbatim>\<open>_loadAppResources\<close>; the download is then in flight, and \<open>parent\<close> runs when it
  is done.\<close>

definition loadAppResources :: "canvas \<Rightarrow> canvas option" where
  "loadAppResources c =
     (case apps (document c) of
        None \<Rightarrow> None
      | Some ds \<Rightarrow>
          (case collect (isManuallyConfigured c) ds [] c of
             (resources, c') \<Rightarrow> Some (c'\<lparr>events := events c' @ [DownloadRequested resources]\<rparr>)))"

subsection \<open>Stages 1 to 3\<close>

text \<open>The function \<^verbatim>\<open>_initUser\<close> goes on with, once there is a user or none is needed.\<close>

definition user_ready :: "bool \<Rightarrow> canvas \<Rightarrow> canvas option" where
  "user_ready user c = loadAppResources (c\<lparr>cfg_user := user\<rparr>)"

text \<open>\<^verbatim>\<open>_initUser\<close>: the call of \<^verbatim>\<open>Echo.UserSession\<close> is recorded, and \<open>user_ready True\<close>
  runs when the session calls back.\<close>

definition initUser :: "canvas \<Rightarrow> canvas option" where
  "initUser c =
     (if cfg_user c \<or> \<not> truthy (cfg_appkey c) then user_ready (cfg_user c) c
      else Some (c\<lparr>events := events c @ [SessionRequested (cfg_appkey c)]\<rparr>))"

definition initBackplane :: "canvas \<Rightarrow> canvas" where
  "initBackplane c = c\<lparr>events := events c @ [BackplaneInit (backplane (document c))]\<rparr>"

text \<open>The function that \<^verbatim>\<open>init\<close> hands to \<^verbatim>\<open>_fetchConfig\<close>; \<open>None\<close> is a call
  without a configuration.\<close>

definition config_fetched :: "document option \<Rightarrow> canvas \<Rightarrow> canvas option" where
  "config_fetched fetched c =
     (case fetched of
        None \<Rightarrow> Some (error ''invalid_canvas_config'' True (Some (label ''error_no_config'')) c)
      | Some d \<Rightarrow>
          (case apps d of
             None \<Rightarrow> Some (error ''invalid_canvas_config'' True (Some (label ''error_no_apps'')) c)
           | Some [] \<Rightarrow> Some (error ''invalid_canvas_config'' True (Some (label ''error_no_apps'')) c)
           | Some (a # as) \<Rightarrow> initUser (initBackplane (c\<lparr>document := d\<rparr>))))"

text \<open>\<^verbatim>\<open>_fetchConfig\<close>; the request to the storage is then in flight, and \<open>onData\<close> or
  \<open>onError\<close> runs when it is answered.\<close>

definition fetchConfig :: "canvas \<Rightarrow> canvas option" where
  "fetchConfig c =
     (if isManuallyConfigured c then config_fetched (Some (document c)) c
      else Some (c\<lparr>events := events c @ [ConfigRequested (cfg_storageURL c) (cfg_id c)]\<rparr>))"

definition onData :: "document option \<Rightarrow> canvas \<Rightarrow> canvas option" where
  "onData fetched c = config_fetched fetched c"

definition onError :: "canvas \<Rightarrow> canvas option" where
  "onError c = config_fetched None (error ''unable_to_retrieve_app_config'' False None c)"

text \<open>\<^verbatim>\<open>_getOverrides(target, ["id", "appkey"])\<close> and \<^verbatim>\<open>config.extend\<close>.\<close>

definition getOverrides :: "canvas \<Rightarrow> obj" where
  "getOverrides c =
     (if target_id c \<noteq> Undefined then [(''id'', target_id c)] else []) @
     (if target_appkey c \<noteq> Undefined then [(''appkey'', target_appkey c)] else [])"

definition config_extend :: "obj \<Rightarrow> canvas \<Rightarrow> canvas" where
  "config_extend overrides c =
     c\<lparr>cfg_id := (case map_of overrides ''id'' of Some v \<Rightarrow> v | None \<Rightarrow> cfg_id c),
       cfg_appkey := (case map_of overrides ''appkey'' of Some v \<Rightarrow> v | None \<Rightarrow> cfg_appkey c)\<rparr>"

definition canvas_init :: "canvas \<Rightarrow> canvas option" where
  "canvas_init c =
     (if truthy (initialized c)
      then Some (error ''canvas_already_initialized'' False None c)
      else
        (let overrides = getOverrides c;
             c1 = (if overrides \<noteq> [] then config_extend overrides c else c)
         in if \<not> isManuallyConfigured c1 \<and> \<not> (truthy (cfg_id c1) \<and> truthy (cfg_appkey c1))
            then Some (error ''invalid_canvas_config'' False None c1)
            else fetchConfig (c1\<lparr>initialized := Bool True\<rparr>)))"

subsection \<open>Teardown\<close>

definition destroyApp :: "app_instance option \<Rightarrow> canvas \<Rightarrow> canvas" where
  "destroyApp app c = (case app of Some a \<Rightarrow> c\<lparr>events := events c @ [Destroyed a]\<rparr> | None \<Rightarrow> c)"

definition canvas_destroy :: "canvas \<Rightarrow> canvas" where
  "canvas_destroy c = (fold destroyApp (registry c) c)\<lparr>initialized := Bool False\<rparr>"

subsection \<open>Notions used in the properties of the canvas\<close>

text \<open>What a call of \<^verbatim>\<open>_error\<close> with a code alone leaves in the events: the error is
  published when the loader is in debug mode, and logged.\<close>

definition report :: "string \<Rightarrow> canvas \<Rightarrow> canvas_observation list" where
  "report code c =
     (if debug c then [ErrorPublished code (label (''error_'' @ code))] else [])
     @ [ErrorLogged code (label (''error_'' @ code))]"

text \<open>The codes of the errors logged, and of the errors published as events.\<close>

fun reported :: "canvas_observation list \<Rightarrow> string list" where
  "reported [] = []"
| "reported (ErrorLogged code m # es) = code # reported es"
| "reported (e # es) = reported es"

fun published :: "canvas_observation list \<Rightarrow> string list" where
  "published [] = []"
| "published (ErrorPublished code m # es) = code # published es"
| "published (e # es) = published es"

text \<open>The instances of a registry.\<close>

fun live :: "app_instance option list \<Rightarrow> app_instance list" where
  "live [] = []"
| "live (Some a # as) = a # live as"
| "live (None # as) = live as"

text \<open>The test of \<^verbatim>\<open>_loadAppResources\<close> on a descriptor, negated.\<close>

definition complete :: "bool \<Rightarrow> canvas \<Rightarrow> descriptor \<Rightarrow> bool" where
  "complete isManual c app =
     (truthy (component app) \<and> truthy (getAppScriptURL app c) \<and> (isManual \<or> truthy (app_id app)))"

text \<open>
  The validity of a descriptor in the words of the specification: the component
  identifier is present, the script URL is resolvable, and an id is derivable: explicit,
  or positional when the canvas is not manually configured.
\<close>

definition valid_as_specified :: "descriptor \<Rightarrow> canvas \<Rightarrow> bool" where
  "valid_as_specified app c =
     (truthy (component app) \<and> truthy (getAppScriptURL app c)
      \<and> (truthy (app_id app) \<or> \<not> isManuallyConfigured c))"

subsection \<open>An example canvas\<close>

text \<open>A canvas configured by hand with three descriptors, the second without a script;
  and a canvas that fetches its document from the storage.\<close>

definition example_stream :: descriptor where
  "example_stream =
     \<lparr>component = Str ''Echo.StreamServer.Controls.Stream'',
      script = Str ''http://cdn.example.com/stream.js'', scripts = Undefined,
      caption = Str ''Stream'', app_id = Undefined, app_config = None\<rparr>"

definition example_broken :: descriptor where
  "example_broken =
     \<lparr>component = Str ''Echo.StreamServer.Controls.Stream'',
      script = Undefined, scripts = Undefined,
      caption = Undefined, app_id = Str ''second'', app_config = None\<rparr>"

definition example_counter :: descriptor where
  "example_counter =
     \<lparr>component = Str ''Echo.StreamServer.Controls.Counter'',
      script = Undefined,
      scripts = Obj [(''dev'', Str ''http://cdn.example.com/counter.js''),
                     (''prod'', Str ''http://cdn.example.com/counter.min.js'')],
      caption = Undefined, app_id = Str ''counter'', app_config = Some []\<rparr>"

definition example_canvas :: canvas where
  "example_canvas =
     \<lparr>initialized = Undefined, target_id = Undefined, target_appkey = Undefined,
      cfg_id = Undefined, cfg_appkey = Undefined, cfg_user = False, cfg_overrides = [],
      cfg_storageURL = Str ''http://storage.example.com/'',
      document = \<lparr>apps = Some [example_stream, example_broken, example_counter],
                   backplane = Undefined, rest = []\<rparr>,
      registry = [], debug = False, components = [], events = []\<rparr>"

definition example_components :: "string list" where
  "example_components =
     [''Echo.StreamServer.Controls.Stream'', ''Echo.StreamServer.Controls.Counter'']"

definition example_loading :: canvas where
  "example_loading = the (canvas_init example_canvas)"

definition example_rendered :: canvas where
  "example_rendered = the (download_done example_components example_loading)"

definition example_remote :: "bool \<Rightarrow> canvas" where
  "example_remote d =
     \<lparr>initialized = Undefined, target_id = Str ''canvas-1'', target_appkey = Str ''key'',
      cfg_id = Undefined, cfg_appkey = Undefined, cfg_user = False, cfg_overrides = [],
      cfg_storageURL = Str ''http://storage.example.com/'',
      document = \<lparr>apps = None, backplane = Undefined, rest = []\<rparr>,
      registry = [], debug = d, components = [], events = []\<rparr>"

section \<open>Properties of the session\<close>

subsection \<open>The dispatcher and the store\<close>

lemma loose_eq_Undefined: "loose_eq v Undefined = nullish v"
  by (cases v) (simp_all add: loose_eq_def to_primitive_def)

lemma get_activeIdentities_handler:
  "maybeDelegate get_methods ''get'' ''activeIdentities'' = Some GetActiveIdentities"
  by code_simp

lemma get_sessionID: "get ''sessionID'' d u = Some (channelID u, u)"
proof -
  have "maybeDelegate get_methods ''get'' ''sessionID'' = Some GetSessionID"
    by code_simp
  then show ?thesis
    by (simp add: get_def getSessionID_def)
qed

lemma getActiveIdentities_frame:
  "getActiveIdentities u = Some (v, u') \<Longrightarrow> u' = u\<lparr>identity := identity u'\<rparr>"
  by (auto simp: getActiveIdentities_def split: option.splits if_splits)



lemma reset_frame:
  assumes "reset d u = Some u'"
  shows "u' = u\<lparr>data := data u', identity := identity u'\<rparr>"
proof -
  from assms obtain nd ids u1 where
    g: "getActiveIdentities (u\<lparr>data := Some nd, identity := Some []\<rparr>) = Some (ids, u1)"
    and u': "u' = u1\<lparr>identity := Some (first_identity ids)\<rparr>"
    by (auto simp: reset_def get_def get_activeIdentities_handler split: option.splits)
  have u1: "u1 = u\<lparr>data := Some nd, identity := identity u1\<rparr>"
    using getActiveIdentities_frame [OF g] by simp
  have e: "u' = u\<lparr>data := Some nd, identity := Some (first_identity ids)\<rparr>"
    unfolding u' by (subst u1) simp
  show ?thesis
    by (simp add: e)
qed


lemma run_handlers_eq:
  "run_handlers hs u =
     u\<lparr>subscriptions := filter (\<lambda>(h, t, f). (h, t) \<notin> set (map (\<lambda>(h, t, f). (h, t)) hs)) (subscriptions u),
       trace := trace u @ concat (map (\<lambda>(h, t, f). fired f) hs)\<rparr>"
proof (induction hs arbitrary: u)
  case Nil
  show ?case by simp
next
  case (Cons x hs)
  obtain h t f where x: "x = (h, t, f)" by (cases x)
  show ?case
    unfolding x run_handlers.simps Cons.IH
    by (simp add: call_fn_def unsubscribe_def split_def)
qed

lemma publish_eq:
  "publish topic u =
     u\<lparr>subscriptions := filter (\<lambda>(h, t, f). t \<noteq> topic) (subscriptions u),
       trace := trace u @ Published topic #
                concat (map (\<lambda>(h, t, f). fired f) (filter (\<lambda>(h, t, f). t = topic) (subscriptions u)))\<rparr>"
proof -
  have "filter (\<lambda>(h, t, f). (h, t) \<notin> set (map (\<lambda>(h, t, f). (h, t)) (filter (\<lambda>(h, t, f). t = topic) (subscriptions u)))) (subscriptions u)
        = filter (\<lambda>(h, t, f). t \<noteq> topic) (subscriptions u)"
    by (rule filter_cong) (auto simp: image_iff)
  then show ?thesis
    by (simp add: publish_def run_handlers_eq)
qed

lemma getAvatar_frame: "getAvatar u = Some (v, u') \<Longrightarrow> u' = u\<lparr>identity := identity u'\<rparr>"
  by (auto simp: getAvatar_def split: option.splits if_splits)

lemma get_frame: "get key d u = Some (v, u') \<Longrightarrow> u' = u\<lparr>identity := identity u'\<rparr>"
  by (auto simp: get_def Let_def split: option.splits get_method.splits
           dest: getAvatar_frame getActiveIdentities_frame)

lemma get_core:
  assumes "get key d u = Some (v, u')"
  shows "core u' = core u"
proof -
  have "core u' = core (u\<lparr>identity := identity u'\<rparr>)"
    using get_frame [OF assms] by simp
  then show ?thesis by (simp add: core_def)
qed

lemma reset_core:
  assumes "reset d u = Some u'"
  shows "core u' = core u"
proof -
  have "core u' = core (u\<lparr>data := data u', identity := identity u'\<rparr>)"
    using reset_frame [OF assms] by simp
  then show ?thesis by (simp add: core_def)
qed

lemma is_attr_core: "is_attr key u = Some (v, u') \<Longrightarrow> core u' = core u"
  by (auto simp: is_attr_def isLogged_def split: option.splits is_method.splits dest: get_core)

lemma call_fn_core: "core (call_fn f u) = core u"
  by (simp add: core_def call_fn_def)

lemma publish_core: "core (publish topic u) = core u"
  by (simp add: core_def publish_eq)

lemma call_core: "core (call cb u) = core u"
  by (cases cb) (simp_all add: call_def call_fn_core publish_core)

lemma onInit_core: "core (onInit cb u) = core u"
  by (cases cb) (simp_all add: onInit_def subscribe_def core_def)

lemma init_core:
  assumes "init cb u = Some u'"
  shows "state u' = Some Waiting
         \<and> (\<exists>e p. requests u' = requests u @ [\<lparr>endpoint = e, params = p, success = InitDone cb\<rparr>])
         \<and> listeners u' = listeners u
         \<and> backplaneSubscriptionID u' = backplaneSubscriptionID u"
  using assms
  by (auto simp: init_def Let_def get_sessionID apiRequest_def split: option.splits)

lemma init_done_core:
  assumes "init_done cb d u = Some u'"
  shows "core u' = (Some Ready, requests u, listeners u, backplaneSubscriptionID u)"
proof -
  from assms obtain d' u1 where r: "reset d' (u\<lparr>state := Some Ready\<rparr>) = Some u1"
    and u': "u' = call cb (publish ''Echo.UserSession.onInit'' u1)"
    by (auto simp: init_done_def Let_def split: option.splits)
  have "core u' = core (u\<lparr>state := Some Ready\<rparr>)"
    by (simp add: u' call_core publish_core reset_core [OF r])
  then show ?thesis by (simp add: core_def)
qed

lemma logout_done_core: "core (logout_done cb u) = core u"
  using onInit_core [of cb u] by (simp add: logout_done_def Let_def core_def)

lemma logout_core:
  assumes "logout cb u = Some u'"
  shows "state u' = state u \<and> fetches u' = fetches u \<and> listeners u' = listeners u
         \<and> backplaneSubscriptionID u' = backplaneSubscriptionID u"
proof -
  from assms obtain logged u1 where l: "is_attr ''logged'' u = Some (logged, u1)"
    by (auto simp: logout_def split: option.splits)
  note c1 = is_attr_core [OF l]
  show ?thesis
  proof (cases "truthy logged")
    case False
    with assms l obtain u2 where r: "reset empty_payload u1 = Some u2"
      and u': "u' = (case cb of None \<Rightarrow> u2 | Some f \<Rightarrow> call_fn f u2)"
      by (auto simp: logout_def)
    have "core u' = core u2"
      by (cases cb) (simp_all add: u' call_fn_core)
    then have "core u' = core u"
      by (simp add: reset_core [OF r] c1)
    then show ?thesis by (simp add: core_def fetches_def)
  next
    case True
    with assms l obtain c sid u2 where g: "get ''sessionID'' Undefined u1 = Some (sid, u2)"
      and u': "u' = apiRequest (config_get (Obj c) [''endpoints'', ''logout''])
                      [(''sessionID'', sid)] (LogoutDone cb) u2"
      by (auto simp: logout_def split: option.splits)
    have "core u2 = core u"
      by (simp add: get_core [OF g] c1)
    then show ?thesis
      by (simp add: u' apiRequest_def core_def fetches_def)
  qed
qed

lemma listenEvents_core:
  "state (listenEvents u) = state u \<and> requests (listenEvents u) = requests u"
  by (simp add: listenEvents_def Let_def split: option.splits nat.splits)

lemma listenEvents_listeners:
  assumes "length (listeners u) \<le> 1"
    and "listeners u = [] \<or> (\<exists>n. backplaneSubscriptionID u = Some (Suc n))"
  shows "length (listeners (listenEvents u)) \<le> 1
         \<and> (\<exists>n. backplaneSubscriptionID (listenEvents u) = Some (Suc n))"
  using assms by (auto simp: listenEvents_def Let_def split: option.splits nat.splits)

lemma fetches_remove:
  assumes "i < length (requests u)"
  shows "length (fetches (u\<lparr>requests := take i (requests u) @ drop (Suc i) (requests u)\<rparr>))
         = length (fetches u) - (if is_fetch (requests u ! i) then 1 else 0)"
proof -
  have "requests u = take i (requests u) @ requests u ! i # drop (Suc i) (requests u)"
    using assms by (rule id_take_nth_drop)
  then have "filter is_fetch (requests u)
             = filter is_fetch (take i (requests u)) @ filter is_fetch [requests u ! i]
               @ filter is_fetch (drop (Suc i) (requests u))"
    by (metis append_Cons append_Nil filter_append)
  then show ?thesis
    by (simp add: fetches_def del: is_fetch.simps)
qed

lemma fetch_present:
  assumes "i < length (requests u)" and "is_fetch (requests u ! i)"
  shows "0 < length (fetches u)"
  using assms unfolding fetches_def
  by (metis filter_empty_conv length_greater_0_conv nth_mem)

lemma toUpperCase_I: "toUpperCase c = CHR ''I'' \<Longrightarrow> c = CHR ''i'' \<or> c = CHR ''I''"
  by (auto simp: toUpperCase_def split: option.splits if_splits)

lemma special_upper_Identity:
  assumes "special_upper special_casing key = Some ''Identity''"
  shows "key = [CHR 0xC4, CHR 0xB1] @ ''dentity''"
proof -
  from assms have "take (Suc (Suc 0)) key = [CHR 0xC4, CHR 0xB1]
                   \<and> drop (Suc (Suc 0)) key = ''dentity''"
    by (simp add: special_casing_def split: if_splits)
  then show ?thesis
    using append_take_drop_id [of "Suc (Suc 0)" key] by simp
qed

text \<open>The keys that \<^verbatim>\<open>_maybeDelegate\<close> capitalises to \<^verbatim>\<open>Identity\<close>: \<^verbatim>\<open>identity\<close>,
  \<^verbatim>\<open>Identity\<close>, and \<^verbatim>\<open>identity\<close> written with the dotless i, U+0131.\<close>

lemma capitalize_Identity:
  assumes "capitalize key = ''Identity''"
  shows "key = ''identity'' \<or> key = ''Identity'' \<or> key = [CHR 0xC4, CHR 0xB1] @ ''dentity''"
proof (cases "special_upper special_casing key")
  case (Some name)
  with assms have "special_upper special_casing key = Some ''Identity''"
    by (simp add: capitalize_def)
  then have "key = [CHR 0xC4, CHR 0xB1] @ ''dentity''"
    by (rule special_upper_Identity)
  then show ?thesis
    by simp
next
  case None
  with assms show ?thesis
    by (cases key) (auto simp: capitalize_def dest: toUpperCase_I)
qed

lemma capitalize_Identity_keys:
  "capitalize ''identity'' = ''Identity'' \<and> capitalize ''Identity'' = ''Identity''
   \<and> capitalize ([CHR 0xC4, CHR 0xB1] @ ''dentity'') = ''Identity''"
  by code_simp

lemma no_has_handler:
  "capitalize key \<noteq> ''Identity'' \<Longrightarrow> maybeDelegate has_methods ''has'' key = None"
  by (simp add: maybeDelegate_def has_methods_def)

text \<open>What the fallback of \<^verbatim>\<open>get\<close> returns for a value that is stored: the default
  for a stored \<^verbatim>\<open>null\<close> (or \<^verbatim>\<open>undefined\<close>), the stored value otherwise, also when it
  is false, 0 or an empty collection.\<close>

lemma get_stored_without_handler:
  assumes "maybeDelegate get_methods ''get'' key = None"
    and "attrLocation key u = Some (Some loc)"
    and "map_of loc key = Some v"
  shows "get key defaults u = Some (if nullish v then defaults else v, u)"
  using assms by (simp add: get_def field_def loose_eq_Undefined)

text \<open>
  C3. \<^verbatim>\<open>get(key, defaults)\<close> is to return the defaults only when the stored value is
  strictly absent. On the example page the active identity holds \<^verbatim>\<open>username: null\<close>,
  a value that is present; \<^verbatim>\<open>username\<close> has no handler of its own, and
  \<^verbatim>\<open>get("username", "anonymous")\<close> returns \<^verbatim>\<open>"anonymous"\<close> instead of \<^verbatim>\<open>null\<close>: the
  test \<^verbatim>\<open>value == undefined\<close> also holds of \<^verbatim>\<open>null\<close>.
\<close>

theorem get_returns_defaults_for_null:
  "maybeDelegate get_methods ''get'' ''username'' = None
   \<and> attrLocation ''username'' example_ready = Some (identity example_ready)
   \<and> identity example_ready \<noteq> None
   \<and> map_of (the (identity example_ready)) ''username'' = Some Null
   \<and> map_option fst (get ''username'' (Str ''anonymous'') example_ready) = Some (Str ''anonymous'')"
  by code_simp

text \<open>
  C4, the claim as stated fails: on the example page \<^verbatim>\<open>has("identity", "http://x")\<close>
  is answered by \<^verbatim>\<open>_hasIdentity\<close> with true, while \<^verbatim>\<open>any("identity", ["http://x"])\<close>
  has no handler, reads the \<^verbatim>\<open>identity\<close> property of the active identity and
  returns false.
\<close>

theorem has_identity_differs_from_any:
  "map_option fst (has ''identity'' (Str ''http://x'') example_ready) = Some True
   \<and> map_option fst (any ''identity'' [Str ''http://x''] example_ready) = Some False"
  by code_simp

text \<open>
  C4, amended. For every key whose capitalised name, the one that \<^verbatim>\<open>_maybeDelegate\<close>
  builds, is not \<^verbatim>\<open>Identity\<close>, and every value \<open>v\<close>, \<^verbatim>\<open>has(key, v)\<close> returns what
  \<^verbatim>\<open>any(key, [v])\<close> returns and leaves the session in the same state. The keys left out
  are those that \<^verbatim>\<open>_hasIdentity\<close> answers: \<^verbatim>\<open>identity\<close>, \<^verbatim>\<open>Identity\<close> and \<^verbatim>\<open>identity\<close>
  written with a dotless i.
\<close>

theorem has_is_any_without_handler:
  assumes "capitalize key \<noteq> ''Identity''"
  shows "has key v u = any key [v] u"
  by (simp add: has_def no_has_handler [OF assms])

theorem has_is_any_without_handler_witness:
  "capitalize ''roles'' \<noteq> ''Identity''
   \<and> has ''roles'' (Str ''moderator'') example_ready
       = any ''roles'' [Str ''moderator''] example_ready
   \<and> map_option fst (any ''roles'' [Str ''moderator''] example_ready) = Some True"
proof -
  have h: "capitalize ''roles'' \<noteq> ''Identity''"
    by code_simp
  have "map_option fst (any ''roles'' [Str ''moderator''] example_ready) = Some True"
    by code_simp
  then show ?thesis
    using has_is_any_without_handler [OF h, of "Str ''moderator''" example_ready] h
    by simp
qed

subsection \<open>Calls without an application key\<close>

text \<open>
  C10. A call of \<^verbatim>\<open>Echo.UserSession(config)\<close> whose config is falsy (\<open>None\<close>), or whose
  \<^verbatim>\<open>appkey\<close> is missing or falsy, returns \<^verbatim>\<open>undefined\<close> (\<open>False\<close>: the session is not
  returned) and leaves everything as it was: no request, no field of the session, no
  subscription and no call of the ready function.
\<close>

theorem construct_without_appkey:
  assumes "case cfg of None \<Rightarrow> True | Some c \<Rightarrow> \<not> truthy (appkey c)"
  shows "construct cfg u = Some (False, u)"
  using assms by (cases cfg) (simp_all add: construct_def)

theorem construct_without_appkey_witness:
  "(case (None :: settings option) of None \<Rightarrow> True | Some c \<Rightarrow> \<not> truthy (appkey c))
   \<and> construct None (page (Str ''ch'') ''http:'') = Some (False, page (Str ''ch'') ''http:'')
   \<and> (case Some \<lparr>appkey = Undefined, defaultAvatar = Undefined, ready = Some 0\<rparr> of
         None \<Rightarrow> True | Some c \<Rightarrow> \<not> truthy (appkey c))
   \<and> construct (Some \<lparr>appkey = Undefined, defaultAvatar = Undefined, ready = Some 0\<rparr>)
         (page (Str ''ch'') ''http:'') = Some (False, page (Str ''ch'') ''http:'')"
  using construct_without_appkey [of None "page (Str ''ch'') ''http:''"]
        construct_without_appkey
          [of "Some \<lparr>appkey = Undefined, defaultAvatar = Undefined, ready = Some 0\<rparr>"
              "page (Str ''ch'') ''http:''"]
  by simp

subsection \<open>Calls during a resolution\<close>






subsection \<open>Requests in flight\<close>

lemma core_fields:
  "core u' = core u \<Longrightarrow> state u' = state u \<and> fetches u' = fetches u
     \<and> listeners u' = listeners u \<and> backplaneSubscriptionID u' = backplaneSubscriptionID u"
  by (simp add: core_def fetches_def)

lemma one_fetch_core: "core u' = core u \<Longrightarrow> one_fetch u \<Longrightarrow> one_fetch u'"
  by (drule core_fields) (simp add: one_fetch_def)

lemma init_one_fetch:
  assumes "init cb u = Some u'" and "one_fetch u" and "state u \<noteq> Some Waiting"
  shows "one_fetch u'"
proof -
  from init_core [OF assms(1)] obtain e p where "state u' = Some Waiting"
    and r: "requests u' = requests u @ [\<lparr>endpoint = e, params = p, success = InitDone cb\<rparr>]"
    and "listeners u' = listeners u"
    and "backplaneSubscriptionID u' = backplaneSubscriptionID u"
    by blast
  moreover have "length (fetches u') = Suc (length (fetches u))"
    by (simp add: fetches_def r)
  ultimately show ?thesis
    using assms(2,3) by (simp add: one_fetch_def)
qed

lemma construct_one_fetch:
  assumes "construct cfg u = Some (b, u')" and "one_fetch u"
  shows "one_fetch u'"
proof (cases "construct cfg u = Some (False, u)")
  case True
  with assms show ?thesis by simp
next
  case False
  then obtain c where cfg: "cfg = Some c" and key: "truthy (appkey c)"
    by (cases cfg) (auto simp: construct_def split: if_splits)
  let ?u1 = "u\<lparr>state := Some (case state u of Some s \<Rightarrow> s | None \<Rightarrow> Init)\<rparr>"
  show ?thesis
  proof (cases "state u = Some Waiting \<or> state u = Some Ready")
    case True
    then have "core u' = core u"
      using assms(1) cfg key
      by (auto simp: construct_def Let_def onInit_def subscribe_def call_fn_def core_def)
    then show ?thesis using assms(2) by (rule one_fetch_core)
  next
    case False
    then have st: "state ?u1 = Some Init"
      by (cases "state u") (auto split: sstate.splits intro: sstate.exhaust)
    let ?u2 = "listenEvents (?u1\<lparr>data := Some \<lparr>echo = None, poco = None, identities = None\<rparr>,
                                 config := Some (configuration c (getDefaultConfig ?u1))\<rparr>)"
    have i: "init (Plain (Wrapper (ready c))) ?u2 = Some u'"
      using assms(1) cfg key st by (auto simp: construct_def Let_def)
    have "length (fetches ?u2) = 0" "state ?u2 \<noteq> Some Waiting"
      using assms(2) False st by (auto simp: one_fetch_def fetches_def listenEvents_core split: if_splits)
    moreover have "length (listeners ?u2) \<le> 1 \<and> (\<exists>n. backplaneSubscriptionID ?u2 = Some (Suc n))"
      using assms(2) by (intro listenEvents_listeners) (simp_all add: one_fetch_def)
    ultimately have o: "one_fetch ?u2"
      by (simp add: one_fetch_def)
    show ?thesis
      by (rule init_one_fetch [OF i o \<open>state ?u2 \<noteq> Some Waiting\<close>])
  qed
qed

lemma deliver_one_fetch:
  assumes "deliver (listeners u) m u = Some u'" and "one_fetch u"
    and "\<not> (m = ''identity/ack'' \<and> state u = Some Waiting)"
  shows "one_fetch u'"
proof (cases "listeners u")
  case Nil
  with assms show ?thesis by simp
next
  case (Cons l ls)
  with assms(2) have ls: "ls = []" by (simp add: one_fetch_def)
  from assms(1) Cons ls have l: "listener m u = Some u'"
    by (simp split: option.splits)
  show ?thesis
  proof (cases "m = ''identity/ack''")
    case True
    with l assms(3) have i: "init Invalidate u = Some u'" and w: "state u \<noteq> Some Waiting"
      by (simp_all add: listener_def)
    show ?thesis by (rule init_one_fetch [OF i assms(2) w])
  next
    case False
    with l assms(2) show ?thesis by (simp add: listener_def)
  qed
qed

lemma respond_one_fetch:
  assumes "respond i d u = Some u'" and "one_fetch u"
  shows "one_fetch u'"
proof (cases "i < length (requests u)")
  case False
  with assms show ?thesis by (simp add: respond_def)
next
  case True
  let ?u1 = "u\<lparr>requests := take i (requests u) @ drop (Suc i) (requests u)\<rparr>"
  note rm = fetches_remove [OF True]
  show ?thesis
  proof (cases "success (requests u ! i)")
    case (InitDone cb)
    then have f: "is_fetch (requests u ! i)" by simp
    from assms(1) True InitDone have "init_done cb d ?u1 = Some u'"
      by (simp add: respond_def)
    from init_done_core [OF this]
    have "state u' = Some Ready" "fetches u' = fetches ?u1" "listeners u' = listeners u"
      "backplaneSubscriptionID u' = backplaneSubscriptionID u"
      by (simp_all add: core_def fetches_def)
    moreover have "length (fetches ?u1) = 0"
      using rm f fetch_present [OF True f] assms(2)
      by (simp add: one_fetch_def del: is_fetch.simps split: if_splits)
    ultimately show ?thesis
      using assms(2) by (simp add: one_fetch_def)
  next
    case (LogoutDone cb)
    then have f: "\<not> is_fetch (requests u ! i)" by simp
    from assms(1) True LogoutDone have u': "u' = logout_done cb ?u1"
      by (simp add: respond_def)
    have "state u' = state u" "fetches u' = fetches ?u1" "listeners u' = listeners u"
      "backplaneSubscriptionID u' = backplaneSubscriptionID u"
      using logout_done_core [of cb ?u1] by (simp_all add: u' core_def fetches_def)
    moreover have "length (fetches ?u1) = length (fetches u)"
      using rm f by (simp del: is_fetch.simps)
    ultimately show ?thesis
      using assms(2) by (simp add: one_fetch_def)
  qed
qed

lemma step_one_fetch:
  assumes "step e u = Some u'" and "one_fetch u"
    and "\<not> (e = Message ''identity/ack'' \<and> state u = Some Waiting)"
  shows "one_fetch u'"
proof (cases e)
  case (Construct cfg)
  with assms(1) obtain b where "construct cfg u = Some (b, u')" by auto
  then show ?thesis using assms(2) by (rule construct_one_fetch)
next
  case (Message m)
  with assms(1) have "deliver (listeners u) m u = Some u'" by simp
  then show ?thesis
    using assms(2,3) Message by (intro deliver_one_fetch [of u m u']) simp_all
next
  case (Response i d)
  with assms(1) have "respond i d u = Some u'" by simp
  then show ?thesis using assms(2) by (rule respond_one_fetch)
next
  case (Logout cb)
  with assms(1) have "logout (map_option Fn cb) u = Some u'" by simp
  from logout_core [OF this] assms(2) show ?thesis by (simp add: one_fetch_def)
qed

lemma run_one_fetch:
  "admissible es u \<Longrightarrow> one_fetch u \<Longrightarrow> run es u = Some u' \<Longrightarrow> one_fetch u'"
proof (induction es arbitrary: u)
  case Nil
  then show ?case by simp
next
  case (Cons e es)
  from Cons.prems(3) obtain u1 where s: "step e u = Some u1" and r: "run es u1 = Some u'"
    by (auto split: option.splits)
  have "\<not> (e = Message ''identity/ack'' \<and> state u = Some Waiting)"
    using Cons.prems(1) by simp
  then have o: "one_fetch u1"
    by (rule step_one_fetch [OF s Cons.prems(2)])
  have a: "admissible es u1"
    using Cons.prems(1) s by simp
  show ?case by (rule Cons.IH [OF a o r])
qed

text \<open>
  C2, the claim as stated fails: after a first call, whose request is in flight, an
  \<^verbatim>\<open>identity/ack\<close> message arrives while the state is waiting; the subscriber of
  \<^verbatim>\<open>_listenEvents\<close> calls \<^verbatim>\<open>_init\<close>, and two identity-fetch requests are in flight.
\<close>

theorem ack_while_waiting_issues_second_fetch:
  "state example_waiting = Some Waiting
   \<and> length (fetches example_waiting) = 1
   \<and> step (Message ''identity/ack'') example_waiting \<noteq> None
   \<and> length (fetches (the (step (Message ''identity/ack'') example_waiting))) = 2"
  by code_simp

text \<open>
  C2, amended. Along every run of the page in which no \<^verbatim>\<open>identity/ack\<close> message is
  delivered while the state is waiting, at most one identity-fetch request is in flight
  at every point: calls of \<^verbatim>\<open>Echo.UserSession(config)\<close>, responses and \<^verbatim>\<open>logout\<close>
  never issue a second one.
\<close>

theorem at_most_one_fetch_without_ack_while_waiting:
  assumes "admissible es (page ch pr)" and "run es (page ch pr) = Some u"
  shows "length (fetches u) \<le> 1"
proof -
  have p: "one_fetch (page ch pr)"
    by (simp add: one_fetch_def page_def fetches_def)
  have "one_fetch u" by (rule run_one_fetch [OF assms(1) p assms(2)])
  then show ?thesis by (simp add: one_fetch_def split: if_splits)
qed

theorem at_most_one_fetch_without_ack_while_waiting_witness:
  "admissible [Construct (Some (example_settings 0)), Construct (Some (example_settings 1)),
               Response 0 example_payload, Message ''identity/ack'', Logout (Some 2)]
              (page (Str ''ch'') ''http:'')
   \<and> run [Construct (Some (example_settings 0)), Construct (Some (example_settings 1)),
           Response 0 example_payload, Message ''identity/ack'', Logout (Some 2)]
          (page (Str ''ch'') ''http:'')
       = Some (the (run [Construct (Some (example_settings 0)), Construct (Some (example_settings 1)),
                         Response 0 example_payload, Message ''identity/ack'', Logout (Some 2)]
                        (page (Str ''ch'') ''http:'')))
   \<and> length (fetches (the (run [Construct (Some (example_settings 0)),
                                 Construct (Some (example_settings 1)),
                                 Response 0 example_payload, Message ''identity/ack'',
                                 Logout (Some 2)]
                                (page (Str ''ch'') ''http:'')))) \<le> 1"
proof -
  have a: "admissible [Construct (Some (example_settings 0)), Construct (Some (example_settings 1)),
               Response 0 example_payload, Message ''identity/ack'', Logout (Some 2)]
              (page (Str ''ch'') ''http:'')"
    by code_simp
  have r: "run [Construct (Some (example_settings 0)), Construct (Some (example_settings 1)),
           Response 0 example_payload, Message ''identity/ack'', Logout (Some 2)]
          (page (Str ''ch'') ''http:'')
       = Some (the (run [Construct (Some (example_settings 0)), Construct (Some (example_settings 1)),
                         Response 0 example_payload, Message ''identity/ack'', Logout (Some 2)]
                        (page (Str ''ch'') ''http:'')))"
    by code_simp
  from at_most_one_fetch_without_ack_while_waiting [OF a r] a r show ?thesis
    by blast
qed

section \<open>Properties of the canvas\<close>

subsection \<open>The guard\<close>

lemma error_plain: "error code False None c = c\<lparr>events := events c @ report code c\<rparr>"
  by (simp add: error_def report_def Let_def)

text \<open>
  C9. When the container already carries the initialization marker, \<^verbatim>\<open>init\<close> reports
  the error \<^verbatim>\<open>canvas_already_initialized\<close> and returns: the canvas and the container
  are as before, and the events gain the report of the error only, so that no request
  is issued.
\<close>

theorem init_on_initialized_container:
  assumes "truthy (initialized c)"
  shows "canvas_init c = Some (c\<lparr>events := events c @ report ''canvas_already_initialized'' c\<rparr>)"
  using assms by (simp add: canvas_init_def error_plain)

theorem init_on_initialized_container_witness:
  "truthy (initialized example_loading)
   \<and> canvas_init example_loading =
       Some (example_loading\<lparr>events := events example_loading
               @ [ErrorLogged ''canvas_already_initialized'' ''Canvas has been initialized already'']\<rparr>)"
proof -
  have h: "truthy (initialized example_loading)" by code_simp
  have d: "\<not> debug example_loading" by code_simp
  from init_on_initialized_container [OF h] h d show ?thesis
    by (simp add: report_def label_def labels_def)
qed

subsection \<open>A failing configuration request\<close>

text \<open>
  C6, the claim as stated fails: the canvas that fetches its document is initialised
  and the request to the storage fails. In debug mode two error events are published,
  \<^verbatim>\<open>unable_to_retrieve_app_config\<close> and then \<^verbatim>\<open>invalid_canvas_config\<close>; out of debug
  mode none is published, and the two errors are logged.
\<close>

theorem config_failure_counterexample:
  "events (the (canvas_init (example_remote True)))
     = [ConfigRequested (Str ''http://storage.example.com/'') (Str ''canvas-1'')]
   \<and> published (events (the (onError (the (canvas_init (example_remote True))))))
     = [''unable_to_retrieve_app_config'', ''invalid_canvas_config'']
   \<and> published (events (the (onError (the (canvas_init (example_remote False)))))) = []
   \<and> reported (events (the (onError (the (canvas_init (example_remote False))))))
     = [''unable_to_retrieve_app_config'', ''invalid_canvas_config'']"
  by code_simp

text \<open>
  C6, amended. When the request to the storage fails, the canvas reports
  \<^verbatim>\<open>unable_to_retrieve_app_config\<close> and then, because \<^verbatim>\<open>_fetchConfig\<close> goes on to call
  back without a configuration, \<^verbatim>\<open>invalid_canvas_config\<close>, which is also shown in the
  container with the message of \<^verbatim>\<open>error_no_config\<close>. Each of the two is logged, and
  published as an event in debug mode only. Nothing else happens: no instance is
  created and no further request is issued.
\<close>

theorem config_failure_is_reported_twice:
  "onError c =
     Some (c\<lparr>events := events c
              @ report ''unable_to_retrieve_app_config'' c
              @ (if debug c then [ErrorPublished ''invalid_canvas_config'' (label ''error_no_config'')] else [])
              @ [ErrorLogged ''invalid_canvas_config'' (label ''error_no_config''),
                 MessageShown (label ''error_no_config'')]\<rparr>)"
  by (simp add: onError_def config_fetched_def error_def report_def Let_def label_def labels_def)

subsection \<open>Teardown\<close>

lemma fold_destroyApp:
  "fold destroyApp as c = c\<lparr>events := events c @ map Destroyed (live as)\<rparr>"
proof (induction as arbitrary: c)
  case Nil
  show ?case by simp
next
  case (Cons a as)
  show ?case by (cases a) (simp_all add: Cons.IH, simp_all add: destroyApp_def)
qed

text \<open>
  C5, the claim as stated fails: destroying the example canvas, whose registry holds
  three instances, leaves the registry as it was.
\<close>

theorem destroy_counterexample:
  "length (registry example_rendered) = 3
   \<and> registry (canvas_destroy example_rendered) = registry example_rendered
   \<and> registry (canvas_destroy example_rendered) \<noteq> []"
  by code_simp

text \<open>
  C5, amended. Destroying a canvas calls the destroy method of every instance of its
  registry, in registry order, and sets the initialization marker of the container to
  false; the registry itself is left as it was.
\<close>

theorem destroy_keeps_registry:
  "canvas_destroy c =
     c\<lparr>initialized := Bool False, events := events c @ map Destroyed (live (registry c))\<rparr>"
  by (simp add: canvas_destroy_def fold_destroyApp)

subsection \<open>Stage 4\<close>

lemma getAppScriptURL_events [simp]:
  "getAppScriptURL app (c\<lparr>events := e\<rparr>) = getAppScriptURL app c"
  by (simp add: getAppScriptURL_def)

lemma complete_events [simp]: "complete m (c\<lparr>events := e\<rparr>) = complete m c"
  by (rule ext) (simp add: complete_def)

lemma report_events [simp]: "report code (c\<lparr>events := e\<rparr>) = report code c"
  by (simp add: report_def)

lemma collect_eq:
  "collect isManual ds rs c =
     (rs @ map (\<lambda>app. (getAppScriptURL app c, component app)) (filter (complete isManual c) ds),
      c\<lparr>events := events c @ concat (map (\<lambda>app. if complete isManual c app then []
                                               else report ''incomplete_app_config'' c) ds)\<rparr>)"
proof (induction ds arbitrary: rs c)
  case Nil
  show ?case by simp
next
  case (Cons app ds)
  show ?case
  proof (cases "complete isManual c app")
    case True
    then have "collect isManual (app # ds) rs c
               = collect isManual ds (rs @ [(getAppScriptURL app c, component app)]) c"
      by (auto simp: complete_def Let_def)
    then show ?thesis
      using True by (simp add: Cons.IH del: collect.simps)
  next
    case False
    then have "collect isManual (app # ds) rs c
               = collect isManual ds rs (error ''incomplete_app_config'' False None c)"
      by (auto simp: complete_def Let_def)
    then show ?thesis
      using False by (simp add: Cons.IH error_plain del: collect.simps cong: if_cong)
  qed
qed

lemma loadAppResources_eq:
  assumes "apps (document c) = Some ds"
  shows "loadAppResources c =
     Some (c\<lparr>events := events c
              @ concat (map (\<lambda>app. if truthy (component app) \<and> truthy (getAppScriptURL app c)
                                    then [] else report ''incomplete_app_config'' c) ds)
              @ [DownloadRequested
                   (map (\<lambda>app. (getAppScriptURL app c, component app))
                        (filter (\<lambda>app. truthy (component app) \<and> truthy (getAppScriptURL app c)) ds))]\<rparr>)"
proof -
  have m: "isManuallyConfigured c"
    using assms by (simp add: isManuallyConfigured_def isEmptyObject_def)
  have "complete True c = (\<lambda>app. truthy (component app) \<and> truthy (getAppScriptURL app c))"
    by (rule ext) (simp add: complete_def)
  then show ?thesis
    by (simp add: loadAppResources_def assms m collect_eq)
qed

text \<open>
  C7, the claim as stated fails: the example canvas is manually configured and its first
  descriptor has no id, so that it is not valid in the words of the specification; yet
  \<^verbatim>\<open>_loadAppResources\<close> reports no error for it and requests its script.
\<close>

theorem validation_counterexample:
  "isManuallyConfigured example_canvas
   \<and> \<not> truthy (app_id example_stream)
   \<and> \<not> valid_as_specified example_stream example_canvas
   \<and> loadAppResources (example_canvas\<lparr>document := (document example_canvas)\<lparr>apps := Some [example_stream]\<rparr>\<rparr>)
       = Some (example_canvas\<lparr>document := (document example_canvas)\<lparr>apps := Some [example_stream]\<rparr>,
                 events := [DownloadRequested [(Str ''http://cdn.example.com/stream.js'',
                                                 Str ''Echo.StreamServer.Controls.Stream'')]]\<rparr>)"
  by code_simp

text \<open>
  C7, amended. The script URL of a descriptor is the \<^verbatim>\<open>dev\<close> or \<^verbatim>\<open>prod\<close> member of
  \<^verbatim>\<open>scripts\<close>, by the debug flag, when both members are present, and \<^verbatim>\<open>script\<close>
  otherwise. A descriptor passes the validation of Stage 4 if and only if its component
  identifier and the chosen script URL are present: an id would be required of a canvas
  that is not manually configured only, and a canvas whose data holds an app list is
  manually configured. Every other descriptor is reported as
  \<^verbatim>\<open>incomplete_app_config\<close>, and the scripts of the valid ones are requested, in order.
\<close>

theorem stage4_validation:
  assumes "apps (document c) = Some ds"
  shows "(\<forall>app. getAppScriptURL app c =
            (if truthy (scripts app) \<and> truthy (member (scripts app) ''dev'')
                \<and> truthy (member (scripts app) ''prod'')
             then (if debug c then member (scripts app) ''dev'' else member (scripts app) ''prod'')
             else script app))
     \<and> isManuallyConfigured c
     \<and> loadAppResources c =
         Some (c\<lparr>events := events c
              @ concat (map (\<lambda>app. if truthy (component app) \<and> truthy (getAppScriptURL app c)
                                    then [] else report ''incomplete_app_config'' c) ds)
              @ [DownloadRequested
                   (map (\<lambda>app. (getAppScriptURL app c, component app))
                        (filter (\<lambda>app. truthy (component app) \<and> truthy (getAppScriptURL app c)) ds))]\<rparr>)"
proof -
  have "isManuallyConfigured c"
    using assms by (simp add: isManuallyConfigured_def isEmptyObject_def)
  then show ?thesis
    using loadAppResources_eq [OF assms] by (simp add: getAppScriptURL_def)
qed

theorem stage4_validation_witness:
  "apps (document example_canvas) = Some [example_stream, example_broken, example_counter]
   \<and> getAppScriptURL example_counter example_canvas = Str ''http://cdn.example.com/counter.min.js''
   \<and> getAppScriptURL example_counter (example_canvas\<lparr>debug := True\<rparr>)
       = Str ''http://cdn.example.com/counter.js''
   \<and> loadAppResources example_canvas =
       Some (example_canvas\<lparr>events :=
          [ErrorLogged ''incomplete_app_config'' ''Unable to init an app, config is incomplete'',
           DownloadRequested
             [(Str ''http://cdn.example.com/stream.js'', Str ''Echo.StreamServer.Controls.Stream''),
              (Str ''http://cdn.example.com/counter.min.js'', Str ''Echo.StreamServer.Controls.Counter'')]]\<rparr>)"
proof -
  have h: "apps (document example_canvas) = Some [example_stream, example_broken, example_counter]"
    by code_simp
  have e: "getAppScriptURL example_counter example_canvas = Str ''http://cdn.example.com/counter.min.js''"
    "getAppScriptURL example_counter (example_canvas\<lparr>debug := True\<rparr>)
       = Str ''http://cdn.example.com/counter.js''"
    "loadAppResources example_canvas =
       Some (example_canvas\<lparr>events :=
          [ErrorLogged ''incomplete_app_config'' ''Unable to init an app, config is incomplete'',
           DownloadRequested
             [(Str ''http://cdn.example.com/stream.js'', Str ''Echo.StreamServer.Controls.Stream''),
              (Str ''http://cdn.example.com/counter.min.js'', Str ''Echo.StreamServer.Controls.Counter'')]]\<rparr>)"
    by code_simp+
  from stage4_validation [OF h] h e show ?thesis
    by simp
qed

subsection \<open>Stages 4 and 5\<close>

lemma live_append: "live (xs @ ys) = live xs @ live ys"
  by (induction xs rule: live.induct) simp_all

lemma getComponent_frame [simp]:
  "getComponent x (c\<lparr>registry := r\<rparr>) = getComponent x c"
  "getComponent x (c\<lparr>events := e\<rparr>) = getComponent x c"
  by (simp_all add: getComponent_def split: jsval.splits)

lemma report_registry [simp]: "report code (c\<lparr>registry := r\<rparr>) = report code c"
  by (simp add: report_def)

lemma initApp_registered:
  assumes "getComponent (component app) c"
  shows "\<exists>inst. snd (initApp app i c) = c\<lparr>registry := registry c @ [Some inst]\<rparr>
                \<and> inst_component inst = component app"
  using assms by (auto simp: initApp_def Let_def intro!: exI)

lemma initApp_unregistered:
  assumes "\<not> getComponent (component app) c"
  shows "snd (initApp app i c) = c\<lparr>events := events c @ report ''no_suitable_app_class'' c\<rparr>"
  using assms by (simp add: initApp_def error_plain)

lemma initApps_effect:
  "\<exists>r. snd (initApps i ds c) =
          c\<lparr>registry := registry c @ r,
            events := events c @ concat (map (\<lambda>app. if getComponent (component app) c then []
                                       else report ''no_suitable_app_class'' c) ds)\<rparr>
       \<and> map inst_component (live r)
           = map component (filter (\<lambda>app. getComponent (component app) c) ds)
       \<and> length r = length (filter (\<lambda>app. getComponent (component app) c) ds)"
proof (induction ds arbitrary: i c)
  case Nil
  show ?case by simp
next
  case (Cons app ds)
  obtain app' c1 where a: "initApp app i c = (app', c1)" by (cases "initApp app i c")
  obtain ds' c2 where b: "initApps (Suc i) ds c1 = (ds', c2)" by (cases "initApps (Suc i) ds c1")
  have s: "snd (initApps i (app # ds) c) = c2"
    by (simp add: a b)
  show ?case
  proof (cases "getComponent (component app) c")
    case True
    from initApp_registered [OF True, of i] a obtain inst where
      c1: "c1 = c\<lparr>registry := registry c @ [Some inst]\<rparr>"
      and ic: "inst_component inst = component app"
      by auto
    from Cons.IH [of "Suc i" c1] b obtain r where
      c2: "c2 = c1\<lparr>registry := registry c1 @ r,
                  events := events c1 @ concat (map (\<lambda>app. if getComponent (component app) c1 then []
                                       else report ''no_suitable_app_class'' c1) ds)\<rparr>"
      and m: "map inst_component (live r)
              = map component (filter (\<lambda>app. getComponent (component app) c1) ds)"
      and l: "length r = length (filter (\<lambda>app. getComponent (component app) c1) ds)"
      by auto
    have "c2 = c\<lparr>registry := registry c @ (Some inst # r),
                 events := events c @ concat (map (\<lambda>app. if getComponent (component app) c then []
                                       else report ''no_suitable_app_class'' c) (app # ds))\<rparr>"
      using True by (simp add: c2 c1 cong: if_cong)
    moreover have "map inst_component (live (Some inst # r))
           = map component (filter (\<lambda>app. getComponent (component app) c) (app # ds))"
      using True m by (simp add: ic c1)
    moreover have "length (Some inst # r)
           = length (filter (\<lambda>app. getComponent (component app) c) (app # ds))"
      using True l by (simp add: c1)
    ultimately show ?thesis
      unfolding s by blast
  next
    case False
    from initApp_unregistered [OF False, of i] a have
      c1: "c1 = c\<lparr>events := events c @ report ''no_suitable_app_class'' c\<rparr>"
      by simp
    from Cons.IH [of "Suc i" c1] b obtain r where
      c2: "c2 = c1\<lparr>registry := registry c1 @ r,
                  events := events c1 @ concat (map (\<lambda>app. if getComponent (component app) c1 then []
                                       else report ''no_suitable_app_class'' c1) ds)\<rparr>"
      and m: "map inst_component (live r)
              = map component (filter (\<lambda>app. getComponent (component app) c1) ds)"
      and l: "length r = length (filter (\<lambda>app. getComponent (component app) c1) ds)"
      by auto
    have "c2 = c\<lparr>registry := registry c @ r,
                 events := events c @ concat (map (\<lambda>app. if getComponent (component app) c then []
                                       else report ''no_suitable_app_class'' c) (app # ds))\<rparr>"
      using False by (simp add: c2 c1 cong: if_cong)
    moreover have "map inst_component (live r)
           = map component (filter (\<lambda>app. getComponent (component app) c) (app # ds))"
      using False m by (simp add: c1)
    moreover have "length r
           = length (filter (\<lambda>app. getComponent (component app) c) (app # ds))"
      using False l by (simp add: c1)
    ultimately show ?thesis
      unfolding s by blast
  qed
qed

lemma parent_effect:
  assumes "apps (document c) = Some ds"
  shows "\<exists>c' r. parent c = Some c'
       \<and> registry c' = registry c @ r
       \<and> events c' = events c @ concat (map (\<lambda>app. if getComponent (component app) c then []
                                       else report ''no_suitable_app_class'' c) ds) @ [ReadyFired]
       \<and> map inst_component (live r)
           = map component (filter (\<lambda>app. getComponent (component app) c) ds)
       \<and> length r = length (filter (\<lambda>app. getComponent (component app) c) ds)"
proof -
  obtain ds' c1 where a: "initApps 0 ds c = (ds', c1)" by (cases "initApps 0 ds c")
  from initApps_effect [of 0 ds c] a obtain r where
    c1: "c1 = c\<lparr>registry := registry c @ r,
            events := events c @ concat (map (\<lambda>app. if getComponent (component app) c then []
                                       else report ''no_suitable_app_class'' c) ds)\<rparr>"
    and m: "map inst_component (live r)
           = map component (filter (\<lambda>app. getComponent (component app) c) ds)"
    and l: "length r = length (filter (\<lambda>app. getComponent (component app) c) ds)"
    by auto
  have "parent c = Some (c1\<lparr>document := (document c1)\<lparr>apps := Some ds'\<rparr>,
                            events := events c1 @ [ReadyFired]\<rparr>)"
    by (simp add: parent_def container_def assms a)
  then show ?thesis
    using m l by (simp add: c1)
qed

lemma concat_reports:
  "concat (map (\<lambda>x. if P x then [] else r) xs) = concat (replicate (length (filter (\<lambda>x. \<not> P x) xs)) r)"
  by (induction xs) simp_all

lemma getComponent_components:
  "components c' = components c \<Longrightarrow> getComponent x c' = getComponent x c"
  by (simp add: getComponent_def split: jsval.splits)

lemma report_debug: "debug c' = debug c \<Longrightarrow> report code c' = report code c"
  by (simp add: report_def)

lemma filter_split_length:
  "length (filter P xs) = length (filter (\<lambda>x. P x \<and> S x) xs) + length (filter (\<lambda>x. P x \<and> \<not> S x) xs)"
  by (induction xs) simp_all

lemma list_ex_filter: "list_ex P xs = (filter P xs \<noteq> [])"
  by (induction xs) simp_all

text \<open>
  C8, the claim as stated fails: the example canvas has three descriptors, the second
  without a script; its component is the one of the first descriptor, which has an
  implementation when the downloads are done. Stage 4 reports one error, and Stage 5
  instantiates all three descriptors: the registry ends with three entries.
\<close>

theorem three_descriptors_counterexample:
  "apps (document example_loading) = Some [example_stream, example_broken, example_counter]
   \<and> truthy (getAppScriptURL example_stream example_canvas)
   \<and> \<not> truthy (getAppScriptURL example_broken example_canvas)
   \<and> truthy (getAppScriptURL example_counter example_canvas)
   \<and> reported (events example_loading) = [''incomplete_app_config'']
   \<and> download_done example_components example_loading = Some example_rendered
   \<and> length (registry example_rendered) = 3
   \<and> map inst_component (live (registry example_rendered))
       = [Str ''Echo.StreamServer.Controls.Stream'', Str ''Echo.StreamServer.Controls.Stream'',
          Str ''Echo.StreamServer.Controls.Counter'']"
  by code_simp

text \<open>
  C8, amended. Let a canvas have three descriptors, exactly one of them without a
  resolvable script URL, the other two with a component identifier that has an
  implementation when the downloads are done. Stage 4 reports exactly one error,
  \<^verbatim>\<open>incomplete_app_config\<close>, and requests the two other scripts. Stage 5 goes through all
  three descriptors, in order: it instantiates the two valid ones, and the one without
  a script as well when its component identifier has an implementation (the registry
  then gains three entries); otherwise it reports \<^verbatim>\<open>no_suitable_app_class\<close> for it and
  the registry gains two entries. In both cases the rendering goes on to the end.
\<close>

theorem one_incomplete_descriptor_of_three:
  assumes apps: "apps (document c) = Some ds" and three: "length ds = 3"
    and one: "length (filter (\<lambda>app. \<not> truthy (getAppScriptURL app c)) ds) = 1"
    and others: "\<forall>app \<in> set ds. truthy (getAppScriptURL app c) \<longrightarrow>
                   truthy (component app) \<and> getComponent (component app) (c\<lparr>components := defined\<rparr>)"
  shows "\<exists>c1 c2 r. loadAppResources c = Some c1
      \<and> events c1 = events c @ report ''incomplete_app_config'' c
           @ [DownloadRequested
                (map (\<lambda>app. (getAppScriptURL app c, component app))
                     (filter (\<lambda>app. truthy (getAppScriptURL app c)) ds))]
      \<and> length (filter (\<lambda>app. truthy (getAppScriptURL app c)) ds) = 2
      \<and> download_done defined c1 = Some c2
      \<and> registry c2 = registry c @ r
      \<and> map inst_component (live r)
          = map component (filter (\<lambda>app. getComponent (component app) (c\<lparr>components := defined\<rparr>)) ds)
      \<and> length r = (if list_ex (\<lambda>app. \<not> truthy (getAppScriptURL app c)
                          \<and> getComponent (component app) (c\<lparr>components := defined\<rparr>)) ds
                     then 3 else 2)
      \<and> events c2 = events c1
           @ (if list_ex (\<lambda>app. \<not> truthy (getAppScriptURL app c)
                          \<and> getComponent (component app) (c\<lparr>components := defined\<rparr>)) ds
              then [] else report ''no_suitable_app_class'' c)
           @ [ReadyFired]"
proof -
  let ?S = "\<lambda>app. truthy (getAppScriptURL app c)"
  let ?ok = "\<lambda>app. truthy (component app) \<and> truthy (getAppScriptURL app c)"
  let ?P = "\<lambda>app. getComponent (component app) (c\<lparr>components := defined\<rparr>)"
  define rs where "rs = map (\<lambda>app. (getAppScriptURL app c, component app)) (filter ?ok ds)"
  define c1 where "c1 = c\<lparr>events := events c
              @ concat (map (\<lambda>app. if ?ok app then [] else report ''incomplete_app_config'' c) ds)
              @ [DownloadRequested rs]\<rparr>"
  have l1: "loadAppResources c = Some c1"
    unfolding c1_def rs_def by (rule loadAppResources_eq [OF apps])
  have ok: "filter ?ok ds = filter ?S ds"
    using others by (intro filter_cong) auto
  have nok: "filter (\<lambda>app. \<not> ?ok app) ds = filter (\<lambda>app. \<not> ?S app) ds"
    using others by (intro filter_cong) auto
  have two: "length (filter ?S ds) = 2"
    using sum_length_filter_compl [of ?S ds] one three by simp
  have "concat (map (\<lambda>app. if ?ok app then [] else report ''incomplete_app_config'' c) ds)
        = report ''incomplete_app_config'' c"
    unfolding concat_reports nok one by simp
  then have e1: "events c1 = events c @ report ''incomplete_app_config'' c
           @ [DownloadRequested
                (map (\<lambda>app. (getAppScriptURL app c, component app)) (filter ?S ds))]"
    by (simp add: c1_def rs_def ok)
  from one obtain b where b: "filter (\<lambda>app. \<not> ?S app) ds = [b]"
    by (cases "filter (\<lambda>app. \<not> ?S app) ds") auto
  have ex: "list_ex (\<lambda>app. \<not> ?S app \<and> ?P app) ds = ?P b"
  proof -
    have "filter (\<lambda>app. \<not> ?S app \<and> ?P app) ds = filter ?P (filter (\<lambda>app. \<not> ?S app) ds)"
      by (simp add: conj_commute)
    then have f: "filter (\<lambda>app. \<not> ?S app \<and> ?P app) ds = (if ?P b then [b] else [])"
      by (simp add: b)
    show ?thesis
      unfolding list_ex_filter f by simp
  qed
  have cnt: "length (filter ?P ds) = (if ?P b then 3 else 2)"
  proof -
    have "filter (\<lambda>app. ?P app \<and> ?S app) ds = filter ?S ds"
      using others by (intro filter_cong) auto
    moreover have "filter (\<lambda>app. ?P app \<and> \<not> ?S app) ds = filter ?P (filter (\<lambda>app. \<not> ?S app) ds)"
      by (simp add: conj_commute)
    ultimately show ?thesis
      using filter_split_length [of ?P ds ?S] by (simp add: two b)
  qed
  have ncnt: "length (filter (\<lambda>app. \<not> ?P app) ds) = (if ?P b then 0 else 1)"
    using sum_length_filter_compl [of ?P ds] cnt three by (simp split: if_splits)
  define c1' where "c1' = c1\<lparr>components := defined\<rparr>"
  have f1: "apps (document c1') = Some ds" "registry c1' = registry c" "events c1' = events c1"
    "components c1' = components (c\<lparr>components := defined\<rparr>)" "debug c1' = debug c"
    by (simp_all add: c1'_def c1_def apps)
  from parent_effect [OF f1(1)] obtain c2 r where
    p: "parent c1' = Some c2"
    and reg: "registry c2 = registry c1' @ r"
    and ev: "events c2 = events c1' @ concat (map (\<lambda>app. if getComponent (component app) c1' then []
                                       else report ''no_suitable_app_class'' c1') ds) @ [ReadyFired]"
    and m: "map inst_component (live r)
           = map component (filter (\<lambda>app. getComponent (component app) c1') ds)"
    and l: "length r = length (filter (\<lambda>app. getComponent (component app) c1') ds)"
    by blast
  have g: "\<And>x. getComponent x c1' = getComponent x (c\<lparr>components := defined\<rparr>)"
    by (rule getComponent_components [OF f1(4)])
  have rp: "report ''no_suitable_app_class'' c1' = report ''no_suitable_app_class'' c"
    by (rule report_debug [OF f1(5)])
  have d: "download_done defined c1 = Some c2"
    using p by (simp add: download_done_def c1'_def)
  have r1: "registry c2 = registry c @ r"
    using reg by (simp add: f1)
  have r2: "map inst_component (live r) = map component (filter ?P ds)"
    using m by (simp add: g)
  have r3: "length r = (if list_ex (\<lambda>app. \<not> ?S app \<and> ?P app) ds then 3 else 2)"
    using l by (simp add: g cnt ex)
  have "concat (map (\<lambda>app. if ?P app then [] else report ''no_suitable_app_class'' c) ds)
        = (if ?P b then [] else report ''no_suitable_app_class'' c)"
    unfolding concat_reports ncnt by simp
  then have r4: "events c2 = events c1
           @ (if list_ex (\<lambda>app. \<not> ?S app \<and> ?P app) ds then [] else report ''no_suitable_app_class'' c)
           @ [ReadyFired]"
    unfolding ev g rp ex f1(3) by simp
  show ?thesis
    using l1 e1 two d r1 r2 r3 r4 by blast
qed

theorem one_incomplete_descriptor_of_three_witness:
  "apps (document example_loading) = Some [example_stream, example_broken, example_counter]
   \<and> length [example_stream, example_broken, example_counter] = 3
   \<and> truthy (getAppScriptURL example_stream example_loading)
   \<and> \<not> truthy (getAppScriptURL example_broken example_loading)
   \<and> truthy (getAppScriptURL example_counter example_loading)
   \<and> getComponent (component example_stream) (example_loading\<lparr>components := example_components\<rparr>)
   \<and> getComponent (component example_counter) (example_loading\<lparr>components := example_components\<rparr>)
   \<and> (\<exists>c1 c2 r. loadAppResources example_loading = Some c1
        \<and> events c1 = events example_loading
             @ [ErrorLogged ''incomplete_app_config'' ''Unable to init an app, config is incomplete'',
                DownloadRequested
                  [(Str ''http://cdn.example.com/stream.js'',
                    Str ''Echo.StreamServer.Controls.Stream''),
                   (Str ''http://cdn.example.com/counter.min.js'',
                    Str ''Echo.StreamServer.Controls.Counter'')]]
        \<and> download_done example_components c1 = Some c2
        \<and> registry c2 = registry example_loading @ r
        \<and> length r = 3
        \<and> events c2 = events c1 @ [ReadyFired])"
proof -
  let ?ds = "[example_stream, example_broken, example_counter]"
  have h1: "apps (document example_loading) = Some ?ds" by code_simp
  have h2: "length ?ds = 3" by simp
  have h3: "length (filter (\<lambda>app. \<not> truthy (getAppScriptURL app example_loading)) ?ds) = 1"
    by code_simp
  have h4: "\<forall>app \<in> set ?ds. truthy (getAppScriptURL app example_loading) \<longrightarrow>
              truthy (component app)
              \<and> getComponent (component app) (example_loading\<lparr>components := example_components\<rparr>)"
    by code_simp
  have e: "truthy (getAppScriptURL example_stream example_loading)"
    "\<not> truthy (getAppScriptURL example_broken example_loading)"
    "truthy (getAppScriptURL example_counter example_loading)"
    "getComponent (component example_stream) (example_loading\<lparr>components := example_components\<rparr>)"
    "getComponent (component example_counter) (example_loading\<lparr>components := example_components\<rparr>)"
    "getComponent (component example_broken) (example_loading\<lparr>components := example_components\<rparr>)"
    "\<not> debug example_loading"
    by code_simp+
  have rs: "getAppScriptURL example_stream example_loading = Str ''http://cdn.example.com/stream.js''"
    "component example_stream = Str ''Echo.StreamServer.Controls.Stream''"
    "getAppScriptURL example_counter example_loading = Str ''http://cdn.example.com/counter.min.js''"
    "component example_counter = Str ''Echo.StreamServer.Controls.Counter''"
    by code_simp+
  from one_incomplete_descriptor_of_three [OF h1 h2 h3 h4]
  obtain c1 c2 r where
    "loadAppResources example_loading = Some c1"
    "events c1 = events example_loading @ report ''incomplete_app_config'' example_loading
           @ [DownloadRequested
                (map (\<lambda>app. (getAppScriptURL app example_loading, component app))
                     (filter (\<lambda>app. truthy (getAppScriptURL app example_loading)) ?ds))]"
    "download_done example_components c1 = Some c2"
    "registry c2 = registry example_loading @ r"
    "length r = (if list_ex (\<lambda>app. \<not> truthy (getAppScriptURL app example_loading)
                          \<and> getComponent (component app)
                               (example_loading\<lparr>components := example_components\<rparr>)) ?ds
                 then 3 else 2)"
    "events c2 = events c1
           @ (if list_ex (\<lambda>app. \<not> truthy (getAppScriptURL app example_loading)
                          \<and> getComponent (component app)
                               (example_loading\<lparr>components := example_components\<rparr>)) ?ds
              then [] else report ''no_suitable_app_class'' example_loading)
           @ [ReadyFired]"
    by blast
  then have "loadAppResources example_loading = Some c1
        \<and> events c1 = events example_loading
             @ [ErrorLogged ''incomplete_app_config'' ''Unable to init an app, config is incomplete'',
                DownloadRequested
                  [(Str ''http://cdn.example.com/stream.js'',
                    Str ''Echo.StreamServer.Controls.Stream''),
                   (Str ''http://cdn.example.com/counter.min.js'',
                    Str ''Echo.StreamServer.Controls.Counter'')]]
        \<and> download_done example_components c1 = Some c2
        \<and> registry c2 = registry example_loading @ r
        \<and> length r = 3
        \<and> events c2 = events c1 @ [ReadyFired]"
    using e by (simp add: rs report_def label_def labels_def)
  then have "\<exists>c1 c2 r. loadAppResources example_loading = Some c1
        \<and> events c1 = events example_loading
             @ [ErrorLogged ''incomplete_app_config'' ''Unable to init an app, config is incomplete'',
                DownloadRequested
                  [(Str ''http://cdn.example.com/stream.js'',
                    Str ''Echo.StreamServer.Controls.Stream''),
                   (Str ''http://cdn.example.com/counter.min.js'',
                    Str ''Echo.StreamServer.Controls.Counter'')]]
        \<and> download_done example_components c1 = Some c2
        \<and> registry c2 = registry example_loading @ r
        \<and> length r = 3
        \<and> events c2 = events c1 @ [ReadyFired]"
    by (intro exI [of _ c1] exI [of _ c2] exI [of _ r])
  then show ?thesis
    using h1 e(1-5) by simp
qed

end
